theory Spec2Isabelle
  imports Complex_Main "HOL-Library.Word"
begin

section \<open>AudioReflector: early reflections and diffusions\<close>

text \<open>
  A shallow embedding of \<^verbatim>\<open>AudioReflector.cpp\<close> (the version with diffusions).
  The C++ \<^verbatim>\<open>float\<close> is idealised as \<^typ>\<open>real\<close>: rounding, infinities and NaN are
  not modelled, so \<^verbatim>\<open>logf(0)\<close> is not faithful (HOL has \<open>ln 0 = 0\<close>) and no statement
  below relies on it. Conversions from \<^verbatim>\<open>float\<close> to an integer type truncate towards
  zero as C++ does. \<^verbatim>\<open>unsigned int\<close> is \<^typ>\<open>32 word\<close>, \<^verbatim>\<open>int16_t\<close> is \<^typ>\<open>16 word\<close>.
  The drawing functions, the mutex, the timing of a trace and the debug output have no
  effect on the state and are left out.
\<close>

subsection \<open>The glm vector operations used by the code\<close>

datatype vec3 = Vec3 (vx: real) (vy: real) (vz: real)

definition vadd :: "vec3 \<Rightarrow> vec3 \<Rightarrow> vec3" where
  "vadd a b = Vec3 (vx a + vx b) (vy a + vy b) (vz a + vz b)"

definition vsub :: "vec3 \<Rightarrow> vec3 \<Rightarrow> vec3" where
  "vsub a b = Vec3 (vx a - vx b) (vy a - vy b) (vz a - vz b)"

definition vscale :: "vec3 \<Rightarrow> real \<Rightarrow> vec3" where
  "vscale a k = Vec3 (vx a * k) (vy a * k) (vz a * k)"

definition vneg :: "vec3 \<Rightarrow> vec3" where
  "vneg a = Vec3 (- vx a) (- vy a) (- vz a)"

definition glm_dot :: "vec3 \<Rightarrow> vec3 \<Rightarrow> real" where
  "glm_dot a b = vx a * vx b + vy a * vy b + vz a * vz b"

definition glm_length :: "vec3 \<Rightarrow> real" where
  "glm_length v = sqrt (glm_dot v v)"

definition glm_distance :: "vec3 \<Rightarrow> vec3 \<Rightarrow> real" where
  "glm_distance p0 p1 = glm_length (vsub p1 p0)"

definition glm_normalize :: "vec3 \<Rightarrow> vec3" where
  "glm_normalize v = vscale v (1 / sqrt (glm_dot v v))"

definition glm_reflect :: "vec3 \<Rightarrow> vec3 \<Rightarrow> vec3" where
  "glm_reflect I N = vsub I (vscale N (glm_dot N I * 2))"

datatype BoxFace = MIN_X_FACE | MAX_X_FACE | MIN_Y_FACE | MAX_Y_FACE | MIN_Z_FACE | MAX_Z_FACE

subsection \<open>Constants\<close>

definition DEFAULT_PRE_DELAY :: real where "DEFAULT_PRE_DELAY = 20"
definition DEFAULT_MS_DELAY_PER_METER :: real where "DEFAULT_MS_DELAY_PER_METER = 3"
definition MINIMUM_ATTENUATION_TO_REFLECT :: real where "MINIMUM_ATTENUATION_TO_REFLECT = 1 / 256"
definition DEFAULT_DISTANCE_SCALING_FACTOR :: real where "DEFAULT_DISTANCE_SCALING_FACTOR = 2"
definition MAXIMUM_DELAY_MS :: real where "MAXIMUM_DELAY_MS = 1000 * 20"
definition DEFAULT_DIFFUSION_FANOUT :: int where "DEFAULT_DIFFUSION_FANOUT = 5"
definition ABSOLUTE_MAXIMUM_BOUNCE_COUNT :: int where "ABSOLUTE_MAXIMUM_BOUNCE_COUNT = 10"
definition SLIGHTLY_SHORT :: real where "SLIGHTLY_SHORT = 999 / 1000"
definition DEFAULT_ABSORPTION_RATIO :: real where "DEFAULT_ABSORPTION_RATIO = 125 / 1000"
definition DEFAULT_DIFFUSION_RATIO :: real where "DEFAULT_DIFFUSION_RATIO = 125 / 1000"
definition NUMBER_OF_CHANNELS :: nat where "NUMBER_OF_CHANNELS = 2"

text \<open>
  \<^verbatim>\<open>MSECS_PER_SECOND\<close> is declared outside the given sources; its value is the one the
  name and the specification (\<open>delayMs \<cdot> sampleRate / 1000\<close>) give.
\<close>

definition MSECS_PER_SECOND :: real where "MSECS_PER_SECOND = 1000"

subsection \<open>The collaborators and the object\<close>

text \<open>
  Everything the member functions read from outside the object is a field of \<open>Env\<close>:
  the menu options, the avatar's head, the voxel tree's ray intersection
  (\<^verbatim>\<open>_voxels->findRayIntersection\<close>, \<open>None\<close> when it returns false, else the distance and
  the face), and the helpers declared outside the given sources, taken as parameters:
  \<^verbatim>\<open>randFloatInRange\<close> (its value at the \<open>k\<close>-th draw of the run, for the bounds it is
  called with), \<^verbatim>\<open>isSimilarPosition\<close>, \<^verbatim>\<open>isSimilarOrientation\<close>, the rotation of a vector by
  a quaternion and the three identity axes. The orientation type is left abstract.
  \<^verbatim>\<open>QByteArray::resize\<close> leaves the new bytes uninitialised: \<open>resizedBytes i\<close> is the byte
  found at index \<open>i\<close> of a freshly resized array.
\<close>

record 'q Env =
  AudioSpatialProcessingPreDelay :: bool
  AudioSpatialProcessingWithDiffusions :: bool
  AudioSpatialProcessingSlightlyRandomSurfaces :: bool
  AudioSpatialProcessingSeparateEars :: bool
  AudioSpatialProcessingStereoSource :: bool
  AudioSpatialProcessingHeadOriented :: bool
  getPosition :: vec3
  getFinalOrientation :: 'q
  getOrientation :: 'q
  getRightEarPosition :: vec3
  getLeftEarPosition :: vec3
  findRayIntersection :: "vec3 \<Rightarrow> vec3 \<Rightarrow> (real \<times> BoxFace) option"
  randFloatInRange :: "nat \<Rightarrow> real \<Rightarrow> real \<Rightarrow> real"
  isSimilarPosition :: "vec3 \<Rightarrow> vec3 \<Rightarrow> bool"
  isSimilarOrientation :: "'q \<Rightarrow> 'q \<Rightarrow> bool"
  quatRotate :: "'q \<Rightarrow> vec3 \<Rightarrow> vec3"
  resizedBytes :: "nat \<Rightarrow> 8 word"
  IDENTITY_RIGHT :: vec3
  IDENTITY_UP :: vec3
  IDENTITY_FRONT :: vec3

record AudioPath =
  startPoint :: vec3
  startDirection :: vec3
  startDelay :: real
  startAttenuation :: real
  lastPoint :: vec3
  lastDirection :: vec3
  lastDistance :: real
  lastDelay :: real
  lastAttenuation :: real
  bounceCount :: int
  finalized :: bool
  reflections :: "vec3 list"

record AudioPoint =
  location :: vec3
  delay :: real
  attenuation :: real
  distance :: real

record SurfaceCharacteristics =
  reflectiveRatio :: real
  absorptionRatio :: real
  diffusionRatio :: real

text \<open>
  One call of \<^verbatim>\<open>_audio->addSpatialAudioToBuffer(sampleTime, bytes, numSamples)\<close>.
\<close>

record SpatialAudio =
  sampleTimeOf :: "32 word"
  bytesOf :: "8 word list"
  numSamplesOf :: int

text \<open>
  The members of the object, \<^verbatim>\<open>_origin\<close> written \<open>m_origin\<close>. \<open>m_audio\<close> is the list of
  calls the mix sink \<^verbatim>\<open>_audio\<close> has received, oldest first; \<open>randCalls\<close> is the number
  of draws made so far from the process-wide random generator.
\<close>

record 'q AudioReflector =
  m_preDelay :: real
  m_soundMsPerMeter :: real
  m_distanceAttenuationScalingFactor :: real
  m_diffusionFanout :: int
  m_absorptionRatio :: real
  m_diffusionRatio :: real
  m_withDiffusion :: bool
  m_origin :: vec3
  m_orientation :: 'q
  m_listenerPosition :: vec3
  m_reflections :: int
  m_diffusionPathCount :: int
  m_averageAttenuation :: real
  m_maxAttenuation :: real
  m_minAttenuation :: real
  m_averageDelay :: real
  m_maxDelay :: real
  m_minDelay :: real
  m_totalDelay :: real
  m_delayCount :: int
  m_totalAttenuation :: real
  m_attenuationCount :: int
  m_frontRightUpReflections :: "vec3 list"
  m_frontLeftUpReflections :: "vec3 list"
  m_backRightUpReflections :: "vec3 list"
  m_backLeftUpReflections :: "vec3 list"
  m_frontRightDownReflections :: "vec3 list"
  m_frontLeftDownReflections :: "vec3 list"
  m_backRightDownReflections :: "vec3 list"
  m_backLeftDownReflections :: "vec3 list"
  m_frontReflections :: "vec3 list"
  m_backReflections :: "vec3 list"
  m_leftReflections :: "vec3 list"
  m_rightReflections :: "vec3 list"
  m_upReflections :: "vec3 list"
  m_downReflections :: "vec3 list"
  m_audioPaths :: "AudioPath list"
  m_audiblePoints :: "AudioPoint list"
  m_audio :: "SpatialAudio list"
  randCalls :: nat

subsection \<open>The acoustic model\<close>

definition getDelayFromDistance :: "'q Env \<Rightarrow> 'q AudioReflector \<Rightarrow> real \<Rightarrow> real" where
  "getDelayFromDistance env this d =
     (let delay0 = m_soundMsPerMeter this * d
      in if AudioSpatialProcessingPreDelay env \<and> \<not> AudioSpatialProcessingWithDiffusions env
         then delay0 + m_preDelay this else delay0)"

definition getDistanceAttenuationCoefficient :: "'q AudioReflector \<Rightarrow> real \<Rightarrow> real" where
  "getDistanceAttenuationCoefficient this d =
     (let DISTANCE_SCALE = 25 / 10;
          GEOMETRIC_AMPLITUDE_SCALAR = 3 / 10;
          DISTANCE_LOG_BASE = 25 / 10;
          DISTANCE_SCALE_LOG = ln DISTANCE_SCALE / ln DISTANCE_LOG_BASE;
          distanceSquareToSource = d * d;
          distanceCoefficient = GEOMETRIC_AMPLITUDE_SCALAR powr
             (DISTANCE_SCALE_LOG + (0.5 * ln distanceSquareToSource / ln DISTANCE_LOG_BASE) - 1)
      in min 1 (distanceCoefficient * m_distanceAttenuationScalingFactor this))"

definition getSurfaceCharacteristics :: "'q AudioReflector \<Rightarrow> SurfaceCharacteristics" where
  "getSurfaceCharacteristics this =
     \<lparr> reflectiveRatio = 1 - (m_absorptionRatio this + m_diffusionRatio this),
       absorptionRatio = m_absorptionRatio this,
       diffusionRatio = m_diffusionRatio this \<rparr>"

definition getBounceAttenuationCoefficient :: "'q AudioReflector \<Rightarrow> int \<Rightarrow> real" where
  "getBounceAttenuationCoefficient this n =
     (let material = getSurfaceCharacteristics this in reflectiveRatio material powi n)"

text \<open>
  \<^verbatim>\<open>getFaceNormal\<close> draws from the random generator: the normal length only when the
  menu option is checked, the two signs always. It returns the normal and the new
  number of draws.
\<close>

definition getFaceNormal :: "'q Env \<Rightarrow> BoxFace \<Rightarrow> nat \<Rightarrow> vec3 \<times> nat" where
  "getFaceNormal env face r0 =
     (let wantSlightRandomness = AudioSpatialProcessingSlightlyRandomSurfaces env;
          normalLength = (if wantSlightRandomness then randFloatInRange env r0 (99 / 100) 1 else 1);
          r1 = (if wantSlightRandomness then Suc r0 else r0);
          remainder = (1 - normalLength) / 2;
          remainderSignA = (if randFloatInRange env r1 (- 1) 1 < 0 then - 1 else 1);
          remainderSignB = (if randFloatInRange env (Suc r1) (- 1) 1 < 0 then - 1 else 1);
          faceNormal = (case face of
              MIN_X_FACE \<Rightarrow> Vec3 (- normalLength) (remainder * remainderSignA) (remainder * remainderSignB)
            | MAX_X_FACE \<Rightarrow> Vec3 normalLength (remainder * remainderSignA) (remainder * remainderSignB)
            | MIN_Y_FACE \<Rightarrow> Vec3 (remainder * remainderSignA) (- normalLength) (remainder * remainderSignB)
            | MAX_Y_FACE \<Rightarrow> Vec3 (remainder * remainderSignA) normalLength (remainder * remainderSignB)
            | MIN_Z_FACE \<Rightarrow> Vec3 (remainder * remainderSignA) (remainder * remainderSignB) (- normalLength)
            | MAX_Z_FACE \<Rightarrow> Vec3 (remainder * remainderSignA) (remainder * remainderSignB) normalLength)
      in (faceNormal, Suc (Suc r1)))"

text \<open>The unit normal of a face, as the specification's geometry gives it.\<close>

fun axisNormal :: "BoxFace \<Rightarrow> vec3" where
  "axisNormal MIN_X_FACE = Vec3 (- 1) 0 0"
| "axisNormal MAX_X_FACE = Vec3 1 0 0"
| "axisNormal MIN_Y_FACE = Vec3 0 (- 1) 0"
| "axisNormal MAX_Y_FACE = Vec3 0 1 0"
| "axisNormal MIN_Z_FACE = Vec3 0 0 (- 1)"
| "axisNormal MAX_Z_FACE = Vec3 0 0 1"

subsection \<open>The chain engine (no diffusion)\<close>

text \<open>
  The variables of \<^verbatim>\<open>calculateReflections\<close> that live across iterations of its loop.
  \<open>cr_totalDistance\<close> is the function-level \<^verbatim>\<open>totalDistance\<close>; the block-level variable
  of the same name, declared inside the loop, is the local \<open>totalDistance\<close> of the body.
\<close>

record ChainState =
  cr_reflectionPoints :: "vec3 list"
  cr_start :: vec3
  cr_direction :: vec3
  cr_currentAttenuation :: real
  cr_totalDistance :: real
  cr_totalDelay :: real
  cr_bounceCount :: int
  cr_randCalls :: nat

definition calculateReflections_cond :: "ChainState \<Rightarrow> bool" where
  "calculateReflections_cond st \<longleftrightarrow>
     cr_currentAttenuation st > MINIMUM_ATTENUATION_TO_REFLECT \<and>
     cr_totalDelay st < MAXIMUM_DELAY_MS \<and>
     cr_bounceCount st < ABSOLUTE_MAXIMUM_BOUNCE_COUNT"

definition calculateReflections_body ::
  "'q Env \<Rightarrow> 'q AudioReflector \<Rightarrow> vec3 \<Rightarrow> ChainState \<Rightarrow> ChainState" where
  "calculateReflections_body env this earPosition st =
     (case findRayIntersection env (cr_start st) (cr_direction st) of
        Some hit \<Rightarrow>
          (let distance = fst hit; face = snd hit;
               endPoint = vadd (cr_start st) (vscale (cr_direction st) (distance * SLIGHTLY_SHORT));
               st1 = st\<lparr> cr_totalDistance := cr_totalDistance st + glm_distance (cr_start st) endPoint \<rparr>;
               earDistance = glm_distance endPoint earPosition;
               totalDistance = earDistance + distance;
               st2 = st1\<lparr> cr_totalDelay := getDelayFromDistance env this totalDistance \<rparr>;
               st3 = st2\<lparr> cr_currentAttenuation :=
                        getDistanceAttenuationCoefficient this totalDistance *
                        getBounceAttenuationCoefficient this (cr_bounceCount st) \<rparr>
           in if cr_currentAttenuation st3 > MINIMUM_ATTENUATION_TO_REFLECT \<and>
                 cr_totalDelay st3 < MAXIMUM_DELAY_MS
              then (let (faceNormal, r) = getFaceNormal env face (cr_randCalls st3)
                    in st3\<lparr> cr_reflectionPoints := cr_reflectionPoints st3 @ [endPoint],
                            cr_direction := glm_normalize (glm_reflect (cr_direction st3) faceNormal),
                            cr_start := endPoint,
                            cr_bounceCount := cr_bounceCount st3 + 1,
                            cr_randCalls := r \<rparr>)
              else st3)
      | None \<Rightarrow> st\<lparr> cr_currentAttenuation := 0 \<rparr>)"

function calculateReflections_loop ::
  "'q Env \<Rightarrow> 'q AudioReflector \<Rightarrow> vec3 \<Rightarrow> ChainState \<Rightarrow> ChainState" where
  "calculateReflections_loop env this earPosition st =
     (if calculateReflections_cond st
      then calculateReflections_loop env this earPosition (calculateReflections_body env this earPosition st)
      else st)"
  by pat_completeness auto
termination
proof (relation "measure (\<lambda>(env, this, earPosition, st).
          if calculateReflections_cond st
          then 1 + 2 * nat (ABSOLUTE_MAXIMUM_BOUNCE_COUNT - cr_bounceCount st) else 0)")
  show "wf (measure (\<lambda>(env :: 'q Env, this :: 'q AudioReflector, earPosition :: vec3, st).
          if calculateReflections_cond st
          then 1 + 2 * nat (ABSOLUTE_MAXIMUM_BOUNCE_COUNT - cr_bounceCount st) else 0))"
    by simp
next
  fix env :: "'q Env" and this :: "'q AudioReflector" and earPosition st
  assume c: "calculateReflections_cond st"
  have "(if calculateReflections_cond (calculateReflections_body env this earPosition st)
          then 1 + 2 * nat (ABSOLUTE_MAXIMUM_BOUNCE_COUNT - cr_bounceCount (calculateReflections_body env this earPosition st))
          else 0)
       < 1 + 2 * nat (ABSOLUTE_MAXIMUM_BOUNCE_COUNT - cr_bounceCount st)"
    using c
    by (auto simp: calculateReflections_cond_def calculateReflections_body_def Let_def
          MINIMUM_ATTENUATION_TO_REFLECT_def split: option.splits prod.splits if_splits)
  with c show "((env, this, earPosition, calculateReflections_body env this earPosition st),
         (env, this, earPosition, st))
        \<in> measure (\<lambda>(env, this, earPosition, st).
          if calculateReflections_cond st
          then 1 + 2 * nat (ABSOLUTE_MAXIMUM_BOUNCE_COUNT - cr_bounceCount st) else 0)"
    by simp
qed

declare calculateReflections_loop.simps [simp del]





subsection \<open>The sample injector\<close>

text \<open>
  C++ converts a \<^verbatim>\<open>float\<close> to an integer type by discarding the fractional part.
\<close>

definition float_to_int :: "real \<Rightarrow> int" where
  "float_to_int x = (if 0 \<le> x then \<lfloor>x\<rfloor> else \<lceil>x\<rceil>)"

text \<open>
  The byte array seen as an array of \<^verbatim>\<open>int16_t\<close> (little-endian, as on the platforms the
  client runs on). A value outside the 16-bit range is stored modulo \<open>2 ^ 16\<close>.
\<close>

definition readInt16 :: "8 word list \<Rightarrow> nat \<Rightarrow> 16 word" where
  "readInt16 bytes i = word_cat (bytes ! (2 * i + 1)) (bytes ! (2 * i))"

definition writeInt16 :: "8 word list \<Rightarrow> nat \<Rightarrow> 16 word \<Rightarrow> 8 word list" where
  "writeInt16 bytes i v = bytes[2 * i := ucast v, 2 * i + 1 := ucast (drop_bit 8 v)]"

definition resize :: "'q Env \<Rightarrow> nat \<Rightarrow> 8 word list" where
  "resize env n = map (resizedBytes env) [0..<n]"

text \<open>
  One iteration of the loop over the stereo samples, on the pair of the left and the
  right output array.
\<close>

definition attenuateSample ::
  "bool \<Rightarrow> 8 word list \<Rightarrow> real \<Rightarrow> real \<Rightarrow> nat \<Rightarrow> 8 word list \<times> 8 word list \<Rightarrow> 8 word list \<times> 8 word list" where
  "attenuateSample wantStereo samples leftEarAttenuation rightEarAttenuation sample bufs =
     (let leftSample = readInt16 samples (sample * NUMBER_OF_CHANNELS);
          rightSample = (if wantStereo then readInt16 samples (sample * NUMBER_OF_CHANNELS + 1)
                         else leftSample);
          attenuatedLeftSamples = writeInt16 (fst bufs) (sample * NUMBER_OF_CHANNELS)
             (word_of_int (float_to_int (real_of_int (sint leftSample) * leftEarAttenuation)));
          attenuatedLeftSamples = writeInt16 attenuatedLeftSamples (sample * NUMBER_OF_CHANNELS + 1) 0;
          attenuatedRightSamples = writeInt16 (snd bufs) (sample * NUMBER_OF_CHANNELS) 0;
          attenuatedRightSamples = writeInt16 attenuatedRightSamples (sample * NUMBER_OF_CHANNELS + 1)
             (word_of_int (float_to_int (real_of_int (sint rightSample) * rightEarAttenuation)))
      in (attenuatedLeftSamples, attenuatedRightSamples))"

definition attenuateSamples ::
  "bool \<Rightarrow> 8 word list \<Rightarrow> real \<Rightarrow> real \<Rightarrow> 8 word list \<times> 8 word list \<Rightarrow> 8 word list \<times> 8 word list" where
  "attenuateSamples wantStereo samples leftEarAttenuation rightEarAttenuation bufs =
     (let totalNumberOfStereoSamples = length samples div (2 * NUMBER_OF_CHANNELS)
      in fold (attenuateSample wantStereo samples leftEarAttenuation rightEarAttenuation)
           [0..<totalNumberOfStereoSamples] bufs)"

definition addSpatialAudioToBuffer ::
  "32 word \<Rightarrow> 8 word list \<Rightarrow> int \<Rightarrow> 'q AudioReflector \<Rightarrow> 'q AudioReflector" where
  "addSpatialAudioToBuffer sampleTime bytes numSamples this =
     this\<lparr> m_audio := m_audio this @
             [\<lparr> sampleTimeOf = sampleTime, bytesOf = bytes, numSamplesOf = numSamples \<rparr>] \<rparr>"

text \<open>
  The two blocks that update the aggregate statistics, written in the same words in
  \<^verbatim>\<open>echoReflections\<close> and in \<^verbatim>\<open>injectAudiblePoint\<close>.
\<close>

definition noteDelays :: "real \<Rightarrow> real \<Rightarrow> 'q AudioReflector \<Rightarrow> 'q AudioReflector" where
  "noteDelays rightEarDelayMsecs leftEarDelayMsecs this =
     this\<lparr> m_totalDelay := m_totalDelay this + (rightEarDelayMsecs + leftEarDelayMsecs),
           m_delayCount := m_delayCount this + 2,
           m_maxDelay := max (max (m_maxDelay this) rightEarDelayMsecs) leftEarDelayMsecs,
           m_minDelay := min (min (m_minDelay this) rightEarDelayMsecs) leftEarDelayMsecs \<rparr>"

definition noteAttenuations :: "real \<Rightarrow> real \<Rightarrow> 'q AudioReflector \<Rightarrow> 'q AudioReflector" where
  "noteAttenuations rightEarAttenuation leftEarAttenuation this =
     this\<lparr> m_totalAttenuation := m_totalAttenuation this + (rightEarAttenuation + leftEarAttenuation),
           m_attenuationCount := m_attenuationCount this + 2,
           m_maxAttenuation := max (max (m_maxAttenuation this) rightEarAttenuation) leftEarAttenuation,
           m_minAttenuation := min (min (m_minAttenuation this) rightEarAttenuation) leftEarAttenuation \<rparr>"

definition injectAudiblePoint ::
  "'q Env \<Rightarrow> AudioPoint \<Rightarrow> 8 word list \<Rightarrow> 32 word \<Rightarrow> int \<Rightarrow> 'q AudioReflector \<Rightarrow> 'q AudioReflector" where
  "injectAudiblePoint env audiblePoint samples sampleTime sampleRate this =
     (let wantEarSeparation = AudioSpatialProcessingSeparateEars env;
          wantStereo = AudioSpatialProcessingStereoSource env;
          rightEarPosition = (if wantEarSeparation then getRightEarPosition env else getPosition env);
          leftEarPosition = (if wantEarSeparation then getLeftEarPosition env else getPosition env);
          totalNumberOfSamples = int (length samples div 2);
          attenuatedLeftSamples = resize env (length samples);
          attenuatedRightSamples = resize env (length samples);
          rightEarDistance = glm_distance (location audiblePoint) rightEarPosition;
          leftEarDistance = glm_distance (location audiblePoint) leftEarPosition;
          rightEarDelayMsecs = getDelayFromDistance env this rightEarDistance + delay audiblePoint;
          leftEarDelayMsecs = getDelayFromDistance env this leftEarDistance + delay audiblePoint;
          this = noteDelays rightEarDelayMsecs leftEarDelayMsecs this;
          rightEarDelay = float_to_int (rightEarDelayMsecs * real_of_int sampleRate / MSECS_PER_SECOND);
          leftEarDelay = float_to_int (leftEarDelayMsecs * real_of_int sampleRate / MSECS_PER_SECOND);
          rightEarAttenuation = attenuation audiblePoint *
             getDistanceAttenuationCoefficient this (rightEarDistance + distance audiblePoint);
          leftEarAttenuation = attenuation audiblePoint *
             getDistanceAttenuationCoefficient this (leftEarDistance + distance audiblePoint);
          this = noteAttenuations rightEarAttenuation leftEarAttenuation this;
          bufs = attenuateSamples wantStereo samples leftEarAttenuation rightEarAttenuation
                   (attenuatedLeftSamples, attenuatedRightSamples);
          sampleTimeLeft = sampleTime + word_of_int leftEarDelay;
          sampleTimeRight = sampleTime + word_of_int rightEarDelay;
          this = addSpatialAudioToBuffer sampleTimeLeft (fst bufs) totalNumberOfSamples this;
          this = addSpatialAudioToBuffer sampleTimeRight (snd bufs) totalNumberOfSamples this
      in this)"

text \<open>
  The variables of \<^verbatim>\<open>echoReflections\<close> that live across the iterations of its loop over
  the reflection points; the two output arrays are allocated once, before the loop.
\<close>

record 'q EchoState =
  er_start :: vec3
  er_rightDistance :: real
  er_leftDistance :: real
  er_bounceCount :: int
  er_attenuatedLeftSamples :: "8 word list"
  er_attenuatedRightSamples :: "8 word list"
  er_this :: "'q AudioReflector"

definition echoReflections_body ::
  "'q Env \<Rightarrow> 8 word list \<Rightarrow> 32 word \<Rightarrow> int \<Rightarrow> 'q EchoState \<Rightarrow> vec3 \<Rightarrow> 'q EchoState" where
  "echoReflections_body env samples sampleTime sampleRate st endPoint =
     (let wantEarSeparation = AudioSpatialProcessingSeparateEars env;
          wantStereo = AudioSpatialProcessingStereoSource env;
          rightEarPosition = (if wantEarSeparation then getRightEarPosition env else getPosition env);
          leftEarPosition = (if wantEarSeparation then getLeftEarPosition env else getPosition env);
          totalNumberOfSamples = int (length samples div 2);
          this = er_this st;
          bounceCount = er_bounceCount st + 1;
          rightDistance = er_rightDistance st + glm_distance (er_start st) endPoint;
          leftDistance = er_leftDistance st + glm_distance (er_start st) endPoint;
          rightEarDistance = glm_distance endPoint rightEarPosition;
          leftEarDistance = glm_distance endPoint leftEarPosition;
          rightTotalDistance = rightEarDistance + rightDistance;
          leftTotalDistance = leftEarDistance + leftDistance;
          rightEarDelayMsecs = getDelayFromDistance env this rightTotalDistance;
          leftEarDelayMsecs = getDelayFromDistance env this leftTotalDistance;
          this = noteDelays rightEarDelayMsecs leftEarDelayMsecs this;
          rightEarDelay = float_to_int (rightEarDelayMsecs * real_of_int sampleRate / MSECS_PER_SECOND);
          leftEarDelay = float_to_int (leftEarDelayMsecs * real_of_int sampleRate / MSECS_PER_SECOND);
          bounceAttenuation = getBounceAttenuationCoefficient this bounceCount;
          rightEarAttenuation = getDistanceAttenuationCoefficient this rightTotalDistance * bounceAttenuation;
          leftEarAttenuation = getDistanceAttenuationCoefficient this leftTotalDistance * bounceAttenuation;
          this = noteAttenuations rightEarAttenuation leftEarAttenuation this;
          bufs = attenuateSamples wantStereo samples leftEarAttenuation rightEarAttenuation
                   (er_attenuatedLeftSamples st, er_attenuatedRightSamples st);
          sampleTimeLeft = sampleTime + word_of_int leftEarDelay;
          sampleTimeRight = sampleTime + word_of_int rightEarDelay;
          this = addSpatialAudioToBuffer sampleTimeLeft (fst bufs) totalNumberOfSamples this;
          this = addSpatialAudioToBuffer sampleTimeRight (snd bufs) totalNumberOfSamples this
      in \<lparr> er_start = endPoint, er_rightDistance = rightDistance, er_leftDistance = leftDistance,
           er_bounceCount = bounceCount, er_attenuatedLeftSamples = fst bufs,
           er_attenuatedRightSamples = snd bufs, er_this = this \<rparr>)"

definition echoReflections_init ::
  "'q Env \<Rightarrow> vec3 \<Rightarrow> 8 word list \<Rightarrow> 'q AudioReflector \<Rightarrow> 'q EchoState" where
  "echoReflections_init env origin samples this =
     \<lparr> er_start = origin, er_rightDistance = 0, er_leftDistance = 0, er_bounceCount = 0,
       er_attenuatedLeftSamples = resize env (length samples),
       er_attenuatedRightSamples = resize env (length samples),
       er_this = this \<rparr>"

definition echoReflections_loop ::
  "'q Env \<Rightarrow> vec3 \<Rightarrow> vec3 list \<Rightarrow> 8 word list \<Rightarrow> 32 word \<Rightarrow> int \<Rightarrow> 'q AudioReflector \<Rightarrow> 'q EchoState" where
  "echoReflections_loop env origin reflectionPoints samples sampleTime sampleRate this =
     foldl (echoReflections_body env samples sampleTime sampleRate)
       (echoReflections_init env origin samples this) reflectionPoints"


definition INT_MAX :: real where "INT_MAX = 2147483647"
definition FLT_MAX :: real where "FLT_MAX = (2 - 1 / 2 ^ 23) * 2 ^ 127"

definition resetStatistics :: "'q AudioReflector \<Rightarrow> 'q AudioReflector" where
  "resetStatistics this =
     this\<lparr> m_maxDelay := 0, m_maxAttenuation := 0, m_minDelay := INT_MAX, m_minAttenuation := FLT_MAX,
           m_totalDelay := 0, m_delayCount := 0, m_totalAttenuation := 0, m_attenuationCount := 0 \<rparr>"

definition countDiffusionPaths :: "'q AudioReflector \<Rightarrow> int" where
  "countDiffusionPaths this =
     int (length (filter (\<lambda>path. startPoint path \<noteq> m_origin this) (m_audioPaths this)))"

definition averages :: "int \<Rightarrow> 'q AudioReflector \<Rightarrow> 'q AudioReflector" where
  "averages n this =
     (let this = this\<lparr> m_averageDelay :=
                   (if m_delayCount this = 0 then 0 else m_totalDelay this / real_of_int (m_delayCount this)) \<rparr>;
          this = this\<lparr> m_averageAttenuation :=
                   (if m_attenuationCount this = 0 then 0
                    else m_totalAttenuation this / real_of_int (m_attenuationCount this)) \<rparr>;
          this = this\<lparr> m_reflections := n \<rparr>
      in this)"




subsection \<open>The diffusion engine\<close>

definition newAudioPath :: "vec3 \<Rightarrow> vec3 \<Rightarrow> real \<Rightarrow> real \<Rightarrow> real \<Rightarrow> int \<Rightarrow> AudioPath" where
  "newAudioPath origin direction attenuation0 delay0 distance0 bounceCount0 =
     \<lparr> startPoint = origin, startDirection = direction, startDelay = delay0,
       startAttenuation = attenuation0, lastPoint = origin, lastDirection = direction,
       lastDistance = distance0, lastDelay = delay0, lastAttenuation = attenuation0,
       bounceCount = bounceCount0, finalized = False, reflections = [] \<rparr>"

text \<open>
  \<^verbatim>\<open>addSoundSource\<close> appends a path to \<^verbatim>\<open>_audioPaths\<close>; here it builds the path, and the
  callers append it. Its last parameter, the initial distance, has a default value
  declared outside the given sources: the seeds are added without it and start at 0.
\<close>

definition addSoundSource :: "vec3 \<Rightarrow> vec3 \<Rightarrow> real \<Rightarrow> real \<Rightarrow> real \<Rightarrow> AudioPath" where
  "addSoundSource origin initialDirection initialAttenuation initialDelay initialDistance =
     newAudioPath origin initialDirection initialAttenuation initialDelay initialDistance 0"

text \<open>
  The loop \<^verbatim>\<open>for (int i = 0; i < _diffusionFanout; i++)\<close>, with the number of iterations
  left as its argument: each iteration draws three times and adds one sound source.
\<close>

fun diffusions ::
  "'q Env \<Rightarrow> BoxFace \<Rightarrow> vec3 \<Rightarrow> real \<Rightarrow> real \<Rightarrow> real \<Rightarrow> nat \<Rightarrow> nat \<Rightarrow> AudioPath list \<times> nat" where
  "diffusions env face endPoint partialDiffusionAttenuation currentDelay pathDistance 0 r = ([], r)"
| "diffusions env face endPoint partialDiffusionAttenuation currentDelay pathDistance (Suc n) r =
     (let randomness = randFloatInRange env r (1 / 2) 1;
          remainder = (1 - randomness) / 2;
          remainderSignA = (if randFloatInRange env (r + 1) (- 1) 1 < 0 then - 1 else 1);
          remainderSignB = (if randFloatInRange env (r + 2) (- 1) 1 < 0 then - 1 else 1);
          diffusion = (case face of
              MIN_X_FACE \<Rightarrow> Vec3 (- randomness) (remainder * remainderSignA) (remainder * remainderSignB)
            | MAX_X_FACE \<Rightarrow> Vec3 randomness (remainder * remainderSignA) (remainder * remainderSignB)
            | MIN_Y_FACE \<Rightarrow> Vec3 (remainder * remainderSignA) (- randomness) (remainder * remainderSignB)
            | MAX_Y_FACE \<Rightarrow> Vec3 (remainder * remainderSignA) randomness (remainder * remainderSignB)
            | MIN_Z_FACE \<Rightarrow> Vec3 (remainder * remainderSignA) (remainder * remainderSignB) (- randomness)
            | MAX_Z_FACE \<Rightarrow> Vec3 (remainder * remainderSignA) (remainder * remainderSignB) randomness);
          diffusion = glm_normalize diffusion;
          path = addSoundSource endPoint diffusion partialDiffusionAttenuation currentDelay pathDistance;
          rest = diffusions env face endPoint partialDiffusionAttenuation currentDelay pathDistance n (r + 3)
      in (path # fst rest, snd rest))"

text \<open>
  What one iteration of the loop of \<^verbatim>\<open>analyzePathsSingleStep\<close> does with one path: the
  path as it leaves the iteration, the sound sources added, the audible points added,
  and the number of draws.
\<close>

record StepResult =
  sr_path :: AudioPath
  sr_added :: "AudioPath list"
  sr_points :: "AudioPoint list"
  sr_randCalls :: nat

definition analyzePath :: "'q Env \<Rightarrow> 'q AudioReflector \<Rightarrow> AudioPath \<Rightarrow> nat \<Rightarrow> StepResult" where
  "analyzePath env this path r =
     (let start = lastPoint path;
          direction = lastDirection path;
          currentReflectiveAttenuation = lastAttenuation path;
          currentDelay = lastDelay path;
          pathDistance = lastDistance path
      in if finalized path then \<lparr> sr_path = path, sr_added = [], sr_points = [], sr_randCalls = r \<rparr>
         else if bounceCount path > ABSOLUTE_MAXIMUM_BOUNCE_COUNT
         then \<lparr> sr_path = path\<lparr> finalized := True \<rparr>, sr_added = [], sr_points = [], sr_randCalls = r \<rparr>
         else (case findRayIntersection env start direction of
            Some hit \<Rightarrow>
              (let distance = fst hit; face = snd hit;
                   endPoint = vadd start (vscale direction (distance * SLIGHTLY_SHORT));
                   pathDistance = pathDistance + glm_distance start endPoint;
                   toListenerDistance = glm_distance endPoint (m_listenerPosition this);
                   currentDelay = currentDelay + getDelayFromDistance env this distance;
                   material = getSurfaceCharacteristics this;
                   reflectiveAttenuation = currentReflectiveAttenuation * reflectiveRatio material;
                   totalDiffusionAttenuation = currentReflectiveAttenuation * diffusionRatio material;
                   partialDiffusionAttenuation =
                     (if m_diffusionFanout this < 1 then 0
                      else totalDiffusionAttenuation / real_of_int (m_diffusionFanout this));
                   totalDelay = currentDelay + getDelayFromDistance env this toListenerDistance;
                   toListenerAttenuation =
                     getDistanceAttenuationCoefficient this (toListenerDistance + pathDistance);
                   added =
                     (if partialDiffusionAttenuation * toListenerAttenuation > MINIMUM_ATTENUATION_TO_REFLECT
                         \<and> totalDelay < MAXIMUM_DELAY_MS
                      then diffusions env face endPoint partialDiffusionAttenuation currentDelay
                             pathDistance (nat (m_diffusionFanout this)) r
                      else ([], r))
               in if (reflectiveAttenuation + totalDiffusionAttenuation) * toListenerAttenuation
                       > MINIMUM_ATTENUATION_TO_REFLECT
                     \<and> totalDelay < MAXIMUM_DELAY_MS
                  then (let point = \<lparr> location = endPoint, delay = currentDelay,
                                      attenuation = reflectiveAttenuation + totalDiffusionAttenuation,
                                      distance = pathDistance \<rparr>;
                            path = path\<lparr> reflections := reflections path @ [endPoint] \<rparr>
                        in if reflectiveAttenuation * toListenerAttenuation > MINIMUM_ATTENUATION_TO_REFLECT
                           then (let (faceNormal, r') = getFaceNormal env face (snd added)
                                 in \<lparr> sr_path = path\<lparr>
                                        lastDirection := glm_normalize (glm_reflect direction faceNormal),
                                        lastPoint := endPoint,
                                        lastAttenuation := reflectiveAttenuation,
                                        lastDelay := currentDelay,
                                        lastDistance := pathDistance,
                                        bounceCount := bounceCount path + 1 \<rparr>,
                                      sr_added = fst added, sr_points = [point], sr_randCalls = r' \<rparr>)
                           else \<lparr> sr_path = path\<lparr> finalized := True \<rparr>,
                                  sr_added = fst added, sr_points = [point], sr_randCalls = snd added \<rparr>)
                  else \<lparr> sr_path = path\<lparr> finalized := True \<rparr>,
                         sr_added = fst added, sr_points = [], sr_randCalls = snd added \<rparr>)
          | None \<Rightarrow> \<lparr> sr_path = path\<lparr> finalized := True \<rparr>, sr_added = [], sr_points = [],
                     sr_randCalls = r \<rparr>))"

text \<open>
  The loop \<^verbatim>\<open>foreach(AudioPath* const& path, _audioPaths)\<close>. Qt's \<^verbatim>\<open>foreach\<close> iterates over
  a copy of the container taken when the loop starts, so the sound sources added during
  the loop are not visited in it: the loop runs over the paths present at its start, in
  order, and the result collects the paths as they leave it, the sources added, the
  points added, the number of draws and the number of paths found active.
\<close>

fun analyzeEach ::
  "'q Env \<Rightarrow> 'q AudioReflector \<Rightarrow> AudioPath list \<Rightarrow> nat \<Rightarrow>
     AudioPath list \<times> AudioPath list \<times> AudioPoint list \<times> nat \<times> int" where
  "analyzeEach env this [] r = ([], [], [], r, 0)"
| "analyzeEach env this (path # paths) r =
     (let res = analyzePath env this path r;
          (paths', added, points, r', activePaths) = analyzeEach env this paths (sr_randCalls res)
      in (sr_path res # paths', sr_added res @ added, sr_points res @ points, r',
          (if finalized path then 0 else 1) + activePaths))"

definition analyzePathsSingleStep :: "'q Env \<Rightarrow> 'q AudioReflector \<Rightarrow> 'q AudioReflector \<times> int" where
  "analyzePathsSingleStep env this =
     (let (paths', added, points, r', activePaths) =
            analyzeEach env this (m_audioPaths this) (randCalls this)
      in (this\<lparr> m_audioPaths := paths' @ added,
                m_audiblePoints := m_audiblePoints this @ points,
                randCalls := r' \<rparr>, activePaths))"

text \<open>
  The loop \<^verbatim>\<open>while (acitvePaths > 0)\<close> of \<^verbatim>\<open>analyzePaths\<close> has no bound of its own: it
  is run with fuel, one unit per iteration, and \<open>None\<close> means the fuel ran out before
  the loop ended.
\<close>

fun analyzePaths_loop ::
  "nat \<Rightarrow> 'q Env \<Rightarrow> 'q AudioReflector \<Rightarrow> int \<Rightarrow> 'q AudioReflector option" where
  "analyzePaths_loop 0 env this acitvePaths = (if acitvePaths > 0 then None else Some this)"
| "analyzePaths_loop (Suc fuel) env this acitvePaths =
     (if acitvePaths > 0
      then (let (this', n) = analyzePathsSingleStep env this
            in analyzePaths_loop fuel env this' n)
      else Some this)"

definition seedPaths :: "'q Env \<Rightarrow> 'q AudioReflector \<Rightarrow> AudioPath list" where
  "seedPaths env this =
     (let right = glm_normalize (quatRotate env (m_orientation this) (IDENTITY_RIGHT env));
          up = glm_normalize (quatRotate env (m_orientation this) (IDENTITY_UP env));
          front = glm_normalize (quatRotate env (m_orientation this) (IDENTITY_FRONT env));
          left = vneg right;
          down = vneg up;
          back = vneg front;
          frontRightUp = glm_normalize (vadd (vadd front right) up);
          frontLeftUp = glm_normalize (vadd (vadd front left) up);
          backRightUp = glm_normalize (vadd (vadd back right) up);
          backLeftUp = glm_normalize (vadd (vadd back left) up);
          frontRightDown = glm_normalize (vadd (vadd front right) down);
          frontLeftDown = glm_normalize (vadd (vadd front left) down);
          backRightDown = glm_normalize (vadd (vadd back right) down);
          backLeftDown = glm_normalize (vadd (vadd back left) down);
          initialAttenuation = 1;
          preDelay = (if AudioSpatialProcessingPreDelay env then m_preDelay this else 0)
      in map (\<lambda>direction. addSoundSource (m_origin this) direction initialAttenuation preDelay 0)
           [right, front, up, down, back, left, frontRightUp, frontLeftUp, backRightUp, backLeftUp,
            frontRightDown, frontLeftDown, backRightDown, backLeftDown])"

definition analyzePaths :: "nat \<Rightarrow> 'q Env \<Rightarrow> 'q AudioReflector \<Rightarrow> 'q AudioReflector option" where
  "analyzePaths fuel env this =
     (let this = this\<lparr> m_audioPaths := [], m_audiblePoints := [] \<rparr>;
          this = this\<lparr> m_audioPaths := seedPaths env this \<rparr>;
          acitvePaths = int (length (m_audioPaths this))
      in case analyzePaths_loop fuel env this acitvePaths of
           None \<Rightarrow> None
         | Some this \<Rightarrow>
             Some (let this = this\<lparr> m_reflections := int (length (m_audiblePoints this)) \<rparr>
                   in this\<lparr> m_diffusionPathCount := countDiffusionPaths this \<rparr>))"


subsection \<open>A concrete scene\<close>

text \<open>
  glm's quaternions and the rotation of a vector by one; the identity axes are those of
  the client (right is \<open>+x\<close>, up is \<open>+y\<close>, front is \<open>-z\<close>).
\<close>

datatype quat = Quat (qw: real) (qx: real) (qy: real) (qz: real)

definition glm_cross :: "vec3 \<Rightarrow> vec3 \<Rightarrow> vec3" where
  "glm_cross a b =
     Vec3 (vy a * vz b - vy b * vz a) (vz a * vx b - vz b * vx a) (vx a * vy b - vx b * vy a)"

definition glm_rotate :: "quat \<Rightarrow> vec3 \<Rightarrow> vec3" where
  "glm_rotate q v =
     (let u = Vec3 (qx q) (qy q) (qz q);
          uv = glm_cross u v;
          uuv = glm_cross u uv
      in vadd v (vadd (vscale uv (2 * qw q)) (vscale uuv 2)))"

text \<open>
  Two small voxels on the \<open>x\<close> axis, their near faces at \<open>x = 1/32\<close> and \<open>x = -1/32\<close>: a ray
  along the axis from a point between them hits the facing voxel, every other ray used
  here misses.
\<close>

definition corridor :: "vec3 \<Rightarrow> vec3 \<Rightarrow> (real \<times> BoxFace) option" where
  "corridor start direction =
     (if vy start = 0 \<and> vz start = 0 \<and> vy direction = 0 \<and> vz direction = 0
      then (if 0 < vx direction \<and> vx start < 1 / 32
            then Some ((1 / 32 - vx start) / vx direction, MIN_X_FACE)
            else if vx direction < 0 \<and> - (1 / 32) < vx start
            then Some ((vx start + 1 / 32) / (- vx direction), MAX_X_FACE)
            else None)
      else None)"

text \<open>
  The listener stands at the origin, unrotated; the random generator alternates between
  the lower and the upper bound it is called with; the diffusion engine is selected.
\<close>

definition corridorEnv :: "quat Env" where
  "corridorEnv =
     \<lparr> AudioSpatialProcessingPreDelay = False,
       AudioSpatialProcessingWithDiffusions = True,
       AudioSpatialProcessingSlightlyRandomSurfaces = False,
       AudioSpatialProcessingSeparateEars = False,
       AudioSpatialProcessingStereoSource = True,
       AudioSpatialProcessingHeadOriented = False,
       getPosition = Vec3 0 0 0,
       getFinalOrientation = Quat 1 0 0 0,
       getOrientation = Quat 1 0 0 0,
       getRightEarPosition = Vec3 (1 / 10) 0 0,
       getLeftEarPosition = Vec3 (- (1 / 10)) 0 0,
       findRayIntersection = corridor,
       randFloatInRange = (\<lambda>k lo hi. if even k then lo else hi),
       isSimilarPosition = (\<lambda>a b. glm_distance a b \<le> 1 / 100),
       isSimilarOrientation =
         (\<lambda>a b. 9999 / 10000 \<le> \<bar>qw a * qw b + qx a * qx b + qy a * qy b + qz a * qz b\<bar>),
       quatRotate = glm_rotate,
       resizedBytes = (\<lambda>i. 0),
       IDENTITY_RIGHT = Vec3 1 0 0,
       IDENTITY_UP = Vec3 0 1 0,
       IDENTITY_FRONT = Vec3 0 0 (- 1) \<rparr>"

text \<open>The object as its constructor leaves it.\<close>

definition newReflector :: "quat AudioReflector" where
  "newReflector =
     \<lparr> m_preDelay = DEFAULT_PRE_DELAY,
       m_soundMsPerMeter = DEFAULT_MS_DELAY_PER_METER,
       m_distanceAttenuationScalingFactor = DEFAULT_DISTANCE_SCALING_FACTOR,
       m_diffusionFanout = DEFAULT_DIFFUSION_FANOUT,
       m_absorptionRatio = DEFAULT_ABSORPTION_RATIO,
       m_diffusionRatio = DEFAULT_DIFFUSION_RATIO,
       m_withDiffusion = False,
       m_origin = Vec3 0 0 0,
       m_orientation = Quat 1 0 0 0,
       m_listenerPosition = Vec3 0 0 0,
       m_reflections = 0,
       m_diffusionPathCount = 0,
       m_averageAttenuation = 0,
       m_maxAttenuation = 0,
       m_minAttenuation = 0,
       m_averageDelay = 0,
       m_maxDelay = 0,
       m_minDelay = 0,
       m_totalDelay = 0,
       m_delayCount = 0,
       m_totalAttenuation = 0,
       m_attenuationCount = 0,
       m_frontRightUpReflections = [],
       m_frontLeftUpReflections = [],
       m_backRightUpReflections = [],
       m_backLeftUpReflections = [],
       m_frontRightDownReflections = [],
       m_frontLeftDownReflections = [],
       m_backRightDownReflections = [],
       m_backLeftDownReflections = [],
       m_frontReflections = [],
       m_backReflections = [],
       m_leftReflections = [],
       m_rightReflections = [],
       m_upReflections = [],
       m_downReflections = [],
       m_audioPaths = [],
       m_audiblePoints = [],
       m_audio = [],
       randCalls = 0 \<rparr>"

subsection \<open>The quantities the specification names\<close>

text \<open>The lengths of the segments of the polyline from \<open>s\<close> through the points, in order.\<close>

fun segments :: "vec3 \<Rightarrow> vec3 list \<Rightarrow> real list" where
  "segments s [] = []"
| "segments s (p # ps) = glm_distance s p # segments p ps"

text \<open>
  The ear positions (left, right) the injector uses; the delay and the attenuation of
  an audible point at an ear, as the specification writes them.
\<close>

definition earPositions :: "'q Env \<Rightarrow> vec3 \<times> vec3" where
  "earPositions env =
     (if AudioSpatialProcessingSeparateEars env then (getLeftEarPosition env, getRightEarPosition env)
      else (getPosition env, getPosition env))"

definition earDelayMsecs :: "'q Env \<Rightarrow> 'q AudioReflector \<Rightarrow> AudioPoint \<Rightarrow> vec3 \<Rightarrow> real" where
  "earDelayMsecs env this point earPos =
     getDelayFromDistance env this (glm_distance (location point) earPos) + delay point"

definition earAttenuation :: "'q AudioReflector \<Rightarrow> AudioPoint \<Rightarrow> vec3 \<Rightarrow> real" where
  "earAttenuation this point earPos =
     attenuation point *
     getDistanceAttenuationCoefficient this (glm_distance (location point) earPos + distance point)"

text \<open>
  An audible point at the listener, and two batches for it: one stereo frame holding
  the samples 1000 and 2000, and the same followed by two stray bytes.
\<close>

definition nearPoint :: AudioPoint where
  "nearPoint = \<lparr> location = Vec3 0 0 0, delay = 7 / 128, attenuation = 1 / 2, distance = 1 \<rparr>"

definition oneFrame :: "8 word list" where
  "oneFrame = [232, 3, 208, 7]"


text \<open>The object holding that one audible point.\<close>

definition heardReflector :: "quat AudioReflector" where
  "heardReflector = newReflector\<lparr> m_audiblePoints := [nearPoint] \<rparr>"


text \<open>
  The quantities of one bounce of the diffusion engine, for a path whose ray hits at
  distance \<open>d\<close>: the reflection point, the new accumulated distance and delay, the delay
  of the whole way back to the listener, and the attenuations.
\<close>

definition bounceEnd :: "AudioPath \<Rightarrow> real \<Rightarrow> vec3" where
  "bounceEnd path d = vadd (lastPoint path) (vscale (lastDirection path) (d * SLIGHTLY_SHORT))"

definition bounceDistance :: "AudioPath \<Rightarrow> real \<Rightarrow> real" where
  "bounceDistance path d = lastDistance path + glm_distance (lastPoint path) (bounceEnd path d)"

definition bounceDelay :: "'q Env \<Rightarrow> 'q AudioReflector \<Rightarrow> AudioPath \<Rightarrow> real \<Rightarrow> real" where
  "bounceDelay env this path d = lastDelay path + getDelayFromDistance env this d"

definition bounceTotalDelay :: "'q Env \<Rightarrow> 'q AudioReflector \<Rightarrow> AudioPath \<Rightarrow> real \<Rightarrow> real" where
  "bounceTotalDelay env this path d =
     bounceDelay env this path d +
     getDelayFromDistance env this (glm_distance (bounceEnd path d) (m_listenerPosition this))"

definition toListenerAttenuation :: "'q AudioReflector \<Rightarrow> AudioPath \<Rightarrow> real \<Rightarrow> real" where
  "toListenerAttenuation this path d =
     getDistanceAttenuationCoefficient this
       (glm_distance (bounceEnd path d) (m_listenerPosition this) + bounceDistance path d)"

definition reflectiveAttenuation :: "'q AudioReflector \<Rightarrow> AudioPath \<Rightarrow> real" where
  "reflectiveAttenuation this path =
     lastAttenuation path * (1 - (m_absorptionRatio this + m_diffusionRatio this))"

definition totalDiffusionAttenuation :: "'q AudioReflector \<Rightarrow> AudioPath \<Rightarrow> real" where
  "totalDiffusionAttenuation this path = lastAttenuation path * m_diffusionRatio this"

definition partialDiffusionAttenuation :: "'q AudioReflector \<Rightarrow> AudioPath \<Rightarrow> real" where
  "partialDiffusionAttenuation this path =
     (if m_diffusionFanout this < 1 then 0
      else totalDiffusionAttenuation this path / real_of_int (m_diffusionFanout this))"

text \<open>The three tests of a bounce: diffusions are spawned, a point is emitted, the path goes on.\<close>

definition spawns :: "'q Env \<Rightarrow> 'q AudioReflector \<Rightarrow> AudioPath \<Rightarrow> real \<Rightarrow> bool" where
  "spawns env this path d \<longleftrightarrow>
     partialDiffusionAttenuation this path * toListenerAttenuation this path d
       > MINIMUM_ATTENUATION_TO_REFLECT
     \<and> bounceTotalDelay env this path d < MAXIMUM_DELAY_MS"

definition emits :: "'q Env \<Rightarrow> 'q AudioReflector \<Rightarrow> AudioPath \<Rightarrow> real \<Rightarrow> bool" where
  "emits env this path d \<longleftrightarrow>
     (reflectiveAttenuation this path + totalDiffusionAttenuation this path)
        * toListenerAttenuation this path d > MINIMUM_ATTENUATION_TO_REFLECT
     \<and> bounceTotalDelay env this path d < MAXIMUM_DELAY_MS"

definition continues :: "'q Env \<Rightarrow> 'q AudioReflector \<Rightarrow> AudioPath \<Rightarrow> real \<Rightarrow> bool" where
  "continues env this path d \<longleftrightarrow>
     emits env this path d \<and>
     reflectiveAttenuation this path * toListenerAttenuation this path d > MINIMUM_ATTENUATION_TO_REFLECT"

definition bouncePoint :: "'q Env \<Rightarrow> 'q AudioReflector \<Rightarrow> AudioPath \<Rightarrow> real \<Rightarrow> AudioPoint" where
  "bouncePoint env this path d =
     \<lparr> location = bounceEnd path d, delay = bounceDelay env this path d,
       attenuation = reflectiveAttenuation this path + totalDiffusionAttenuation this path,
       distance = bounceDistance path d \<rparr>"

text \<open>The same scene with no voxel at all, and the listener's pose as a cached trace has it.\<close>

definition emptyEnv :: "quat Env" where
  "emptyEnv = corridorEnv\<lparr> findRayIntersection := (\<lambda>start direction. None) \<rparr>"



text \<open>
  Perfect mirrors in the corridor: nothing is absorbed or diffused. The seed fired to
  the right. The parameters a step of the engine reads, which a trace does not change.
\<close>

definition mirrorReflector :: "quat AudioReflector" where
  "mirrorReflector = newReflector\<lparr> m_absorptionRatio := 0, m_diffusionRatio := 0 \<rparr>"

definition rightSeed :: AudioPath where
  "rightSeed = addSoundSource (Vec3 0 0 0) (Vec3 1 0 0) 1 0 0"

definition mirrorParams :: "quat AudioReflector \<Rightarrow> bool" where
  "mirrorParams this \<longleftrightarrow>
     m_listenerPosition this = Vec3 0 0 0 \<and> m_absorptionRatio this = 0 \<and> m_diffusionRatio this = 0 \<and>
     m_soundMsPerMeter this = 3 \<and> m_distanceAttenuationScalingFactor this = 2"

text \<open>
  A path that bounces between the two voxels, after \<open>k\<close> bounces; a path whose ray
  misses; the state of the fourteen paths of the trace after \<open>k\<close> steps (the seeds to the
  right and to the left bounce, the twelve others miss at the first step), and at the
  end of the trace.
\<close>

definition bouncing :: "int \<Rightarrow> AudioPath \<Rightarrow> bool" where
  "bouncing k path \<longleftrightarrow>
     \<not> finalized path \<and> bounceCount path = k \<and> int (length (reflections path)) = k \<and>
     vy (lastPoint path) = 0 \<and> vz (lastPoint path) = 0 \<and> \<bar>vx (lastPoint path)\<bar> < 1 / 32 \<and>
     (lastDirection path = Vec3 1 0 0 \<or> lastDirection path = Vec3 (- 1) 0 0) \<and>
     lastAttenuation path = 1 \<and>
     0 \<le> lastDistance path \<and> lastDistance path \<le> real_of_int k / 16 \<and>
     0 \<le> lastDelay path \<and> lastDelay path \<le> 3 * real_of_int k / 16"

definition doomed :: "AudioPath \<Rightarrow> bool" where
  "doomed path \<longleftrightarrow>
     \<not> finalized path \<and> bounceCount path = 0 \<and> corridor (lastPoint path) (lastDirection path) = None"

definition inPhase :: "int \<Rightarrow> bool \<Rightarrow> AudioPath \<Rightarrow> bool" where
  "inPhase k b path \<longleftrightarrow>
     (if b then bouncing k path
      else bounceCount path = 0 \<and> reflections path = [] \<and> (finalized path \<or> doomed path))"

definition finished :: "bool \<Rightarrow> AudioPath \<Rightarrow> bool" where
  "finished b path \<longleftrightarrow>
     finalized path \<and> bounceCount path = (if b then 11 else 0) \<and>
     length (reflections path) = (if b then 11 else 0)"

definition seedsBouncing :: "bool list" where
  "seedsBouncing =
     [True, False, False, False, False, True, False, False, False, False, False, False, False, False]"

text \<open>What a finished trace shows of its paths: bounce counts, reflection points, flags.\<close>

definition bounceCounts :: "'q AudioReflector \<Rightarrow> int list" where
  "bounceCounts this = map bounceCount (m_audioPaths this)"

definition reflectionCounts :: "'q AudioReflector \<Rightarrow> nat list" where
  "reflectionCounts this = map (\<lambda>path. length (reflections path)) (m_audioPaths this)"

definition allFinalized :: "'q AudioReflector \<Rightarrow> bool" where
  "allFinalized this = list_all finalized (m_audioPaths this)"


text \<open>
  The chain engine in the corridor, and in front of a single wall at \<open>x = 10\<close> (the second
  scenario of the specification); the state in which \<^verbatim>\<open>calculateReflections\<close> enters its
  loop for the seed to the right, and the states after one and two iterations.
\<close>

definition chainEnv :: "quat Env" where
  "chainEnv = corridorEnv\<lparr> AudioSpatialProcessingWithDiffusions := False \<rparr>"

definition wall :: "vec3 \<Rightarrow> vec3 \<Rightarrow> (real \<times> BoxFace) option" where
  "wall start direction =
     (if 0 < vx direction \<and> vx start < 10 then Some ((10 - vx start) / vx direction, MIN_X_FACE)
      else None)"

definition wallEnv :: "quat Env" where
  "wallEnv = chainEnv\<lparr> findRayIntersection := wall \<rparr>"

definition chainStart :: ChainState where
  "chainStart =
     \<lparr> cr_reflectionPoints = [], cr_start = Vec3 0 0 0, cr_direction = Vec3 1 0 0,
       cr_currentAttenuation = 1, cr_totalDistance = 0, cr_totalDelay = 0,
       cr_bounceCount = 1, cr_randCalls = 0 \<rparr>"

definition chainFirst :: ChainState where
  "chainFirst = calculateReflections_body chainEnv mirrorReflector (Vec3 0 0 0) chainStart"

definition chainSecond :: ChainState where
  "chainSecond = calculateReflections_body chainEnv mirrorReflector (Vec3 0 0 0) chainFirst"

definition wallFirst :: ChainState where
  "wallFirst = calculateReflections_body wallEnv mirrorReflector (Vec3 0 0 0) chainStart"







section \<open>Properties\<close>

subsection \<open>Face normals without jitter\<close>

text \<open>
  C9. When the menu option for slightly random surfaces is not checked,
  \<^verbatim>\<open>getFaceNormal\<close> returns, for each of the six faces, exactly the axis-aligned unit
  normal: the component along the axis is \<open>1\<close> or \<open>-1\<close> and the two others are \<open>0\<close>,
  whatever the random generator returns for the two sign draws. Hence a reflection
  about the returned normal is the reflection about the axis normal.
\<close>

theorem getFaceNormal_without_jitter:
  assumes "\<not> AudioSpatialProcessingSlightlyRandomSurfaces env"
  shows "fst (getFaceNormal env face r) = axisNormal face
       \<and> glm_reflect direction (fst (getFaceNormal env face r)) = glm_reflect direction (axisNormal face)"
  using assms by (cases face) (simp_all add: getFaceNormal_def Let_def)

theorem getFaceNormal_without_jitter_witness:
  "\<not> AudioSpatialProcessingSlightlyRandomSurfaces corridorEnv
   \<and> fst (getFaceNormal corridorEnv MIN_X_FACE 0) = Vec3 (- 1) 0 0
   \<and> glm_reflect (Vec3 1 0 0) (fst (getFaceNormal corridorEnv MIN_X_FACE 0)) = Vec3 (- 1) 0 0"
proof -
  have h: "\<not> AudioSpatialProcessingSlightlyRandomSurfaces corridorEnv"
    by (simp add: corridorEnv_def)
  from getFaceNormal_without_jitter [OF h, of MIN_X_FACE 0 "Vec3 1 0 0"] h
  show ?thesis
    by (simp add: glm_reflect_def glm_dot_def vscale_def vsub_def)
qed

subsection \<open>Helper facts: the scene\<close>

lemma corridorEnv_sel [simp]:
  "AudioSpatialProcessingPreDelay corridorEnv = False"
  "AudioSpatialProcessingWithDiffusions corridorEnv = True"
  "AudioSpatialProcessingSlightlyRandomSurfaces corridorEnv = False"
  "AudioSpatialProcessingSeparateEars corridorEnv = False"
  "AudioSpatialProcessingStereoSource corridorEnv = True"
  "AudioSpatialProcessingHeadOriented corridorEnv = False"
  "getPosition corridorEnv = Vec3 0 0 0"
  "getOrientation corridorEnv = Quat 1 0 0 0"
  "findRayIntersection corridorEnv = corridor"
  "resizedBytes corridorEnv = (\<lambda>i. 0)"
  "quatRotate corridorEnv = glm_rotate"
  "IDENTITY_RIGHT corridorEnv = Vec3 1 0 0"
  "IDENTITY_UP corridorEnv = Vec3 0 1 0"
  "IDENTITY_FRONT corridorEnv = Vec3 0 0 (- 1)"
  by (simp_all add: corridorEnv_def)

lemma newReflector_sel [simp]:
  "m_preDelay newReflector = 20"
  "m_soundMsPerMeter newReflector = 3"
  "m_distanceAttenuationScalingFactor newReflector = 2"
  "m_diffusionFanout newReflector = 5"
  "m_absorptionRatio newReflector = 1 / 8"
  "m_diffusionRatio newReflector = 1 / 8"
  "m_withDiffusion newReflector = False"
  "m_origin newReflector = Vec3 0 0 0"
  "m_orientation newReflector = Quat 1 0 0 0"
  "m_listenerPosition newReflector = Vec3 0 0 0"
  "m_reflections newReflector = 0"
  "m_audioPaths newReflector = []"
  "m_audiblePoints newReflector = []"
  "m_audio newReflector = []"
  "randCalls newReflector = 0"
  by (simp_all add: newReflector_def DEFAULT_PRE_DELAY_def DEFAULT_MS_DELAY_PER_METER_def
        DEFAULT_DISTANCE_SCALING_FACTOR_def DEFAULT_DIFFUSION_FANOUT_def
        DEFAULT_ABSORPTION_RATIO_def DEFAULT_DIFFUSION_RATIO_def)

lemma glm_distance_x: "glm_distance (Vec3 a 0 0) (Vec3 b 0 0) = \<bar>b - a\<bar>"
  by (simp add: glm_distance_def glm_length_def glm_dot_def vsub_def)


lemma powr_small_base_nonpos:
  fixes y :: real
  assumes "y \<le> 0"
  shows "1 \<le> (3 / 10 :: real) powr y"
proof -
  have "ln (3 / 10 :: real) < 0" by (rule ln_less_zero) simp_all
  then have "0 \<le> y * ln (3 / 10 :: real)" using assms by (simp add: mult_nonpos_nonpos)
  then have "1 \<le> exp (y * ln (3 / 10 :: real))" by simp
  then show ?thesis by (simp add: powr_def)
qed

lemma distanceAttenuation_near:
  assumes "0 < d" "d \<le> 1" "1 \<le> m_distanceAttenuationScalingFactor this"
  shows "getDistanceAttenuationCoefficient this d = 1"
proof -
  have l: "ln (d * d) \<le> 0" using assms by (simp add: mult_le_one)
  have "0 < ln (25 / 10 :: real)" by simp
  then have "0.5 * ln (d * d) / ln (25 / 10) \<le> 0"
    using l by (simp add: divide_nonpos_pos)
  then have "ln (25 / 10 :: real) / ln (25 / 10) + (0.5 * ln (d * d) / ln (25 / 10)) - 1 \<le> 0"
    by simp
  from powr_small_base_nonpos [OF this]
  have "1 \<le> (3 / 10 :: real) powr (ln (25 / 10) / ln (25 / 10) + (0.5 * ln (d * d) / ln (25 / 10)) - 1)" .
  then have "1 \<le> (3 / 10 :: real) powr (ln (25 / 10) / ln (25 / 10) + (0.5 * ln (d * d) / ln (25 / 10)) - 1)
                * m_distanceAttenuationScalingFactor this"
    using assms(3) by (metis mult_mono' mult_1 zero_le_one)
  then show ?thesis
    by (simp add: getDistanceAttenuationCoefficient_def Let_def min_def)
qed

subsection \<open>Helper facts: the injector\<close>

lemma noteDelays_sel [simp]:
  "m_audio (noteDelays a b this) = m_audio this"
  "m_audiblePoints (noteDelays a b this) = m_audiblePoints this"
  "getDistanceAttenuationCoefficient (noteDelays a b this) d = getDistanceAttenuationCoefficient this d"
  by (simp_all add: noteDelays_def getDistanceAttenuationCoefficient_def)

lemma noteAttenuations_sel [simp]:
  "m_audio (noteAttenuations a b this) = m_audio this"
  "m_audiblePoints (noteAttenuations a b this) = m_audiblePoints this"
  by (simp_all add: noteAttenuations_def)

lemma addSpatialAudioToBuffer_sel [simp]:
  "m_audio (addSpatialAudioToBuffer t b n this) =
     m_audio this @ [\<lparr> sampleTimeOf = t, bytesOf = b, numSamplesOf = n \<rparr>]"
  "m_audiblePoints (addSpatialAudioToBuffer t b n this) = m_audiblePoints this"
  by (simp_all add: addSpatialAudioToBuffer_def)

lemma injectAudiblePoint_audio:
  "m_audio (injectAudiblePoint env point samples sampleTime sampleRate this) =
     m_audio this @
     (let leftEar = fst (earPositions env); rightEar = snd (earPositions env);
          bufs = attenuateSamples (AudioSpatialProcessingStereoSource env) samples
                   (earAttenuation this point leftEar) (earAttenuation this point rightEar)
                   (resize env (length samples), resize env (length samples))
      in [\<lparr> sampleTimeOf = sampleTime + word_of_int (float_to_int
              (earDelayMsecs env this point leftEar * real_of_int sampleRate / 1000)),
            bytesOf = fst bufs, numSamplesOf = int (length samples div 2) \<rparr>,
          \<lparr> sampleTimeOf = sampleTime + word_of_int (float_to_int
              (earDelayMsecs env this point rightEar * real_of_int sampleRate / 1000)),
            bytesOf = snd bufs, numSamplesOf = int (length samples div 2) \<rparr>])"
  by (simp add: injectAudiblePoint_def Let_def earPositions_def
        earDelayMsecs_def earAttenuation_def MSECS_PER_SECOND_def)

lemma injectAudiblePoint_points [simp]:
  "m_audiblePoints (injectAudiblePoint env point samples sampleTime sampleRate this) = m_audiblePoints this"
  by (simp add: injectAudiblePoint_def Let_def)

lemma nearPoint_ear:
  "earPositions corridorEnv = (Vec3 0 0 0, Vec3 0 0 0)"
  "earDelayMsecs corridorEnv newReflector nearPoint (Vec3 0 0 0) = 7 / 128"
  "earAttenuation newReflector nearPoint (Vec3 0 0 0) = 1 / 2"
  by (simp_all add: earPositions_def earDelayMsecs_def earAttenuation_def nearPoint_def
        getDelayFromDistance_def glm_distance_x distanceAttenuation_near)

lemma resize_corridorEnv: "resize corridorEnv n = replicate n 0"
  by (simp add: resize_def map_replicate_trivial)

lemma attenuate_oneFrame:
  "attenuateSamples True oneFrame (1 / 2) (1 / 2) (replicate 4 0, replicate 4 0)
     = ([244, 1, 0, 0], [0, 0, 232, 3])"
  by code_simp


lemma float_to_int_example: "float_to_int (21 / 8) = 2"
  by (simp add: float_to_int_def)

lemma inject_nearPoint_oneFrame:
  "m_audio (injectAudiblePoint corridorEnv nearPoint oneFrame 0 48000 newReflector) =
     [\<lparr> sampleTimeOf = 2, bytesOf = [244, 1, 0, 0], numSamplesOf = 2 \<rparr>,
      \<lparr> sampleTimeOf = 2, bytesOf = [0, 0, 232, 3], numSamplesOf = 2 \<rparr>]"
proof -
  have len: "length oneFrame = 4" by (simp add: oneFrame_def)
  show ?thesis
    by (simp add: injectAudiblePoint_audio nearPoint_ear Let_def resize_corridorEnv len
          attenuate_oneFrame float_to_int_example)
qed

subsection \<open>The injector of audible points\<close>

text \<open>
  C5, amended. For every audible point, \<^verbatim>\<open>injectAudiblePoint\<close> submits two arrays, the left
  ear's then the right ear's. For each ear the delay is
  \<open>getDelayFromDistance (|location - earPos|) + delay\<close>, the attenuation is
  \<open>attenuation \<cdot> getDistanceAttenuationCoefficient (|location - earPos| + distance)\<close>, and the
  array is anchored at \<open>sampleTime + delaySamples\<close> (unsigned 32-bit addition), where the
  delay in samples is \<open>delayMs \<cdot> sampleRate / 1000\<close> with its fractional part discarded:
  the conversion truncates towards zero, it does not round to the nearest integer.
\<close>

theorem injectAudiblePoint_truncates:
  "m_audio (injectAudiblePoint env point samples sampleTime sampleRate this) =
     m_audio this @
     (let leftEar = fst (earPositions env); rightEar = snd (earPositions env);
          bufs = attenuateSamples (AudioSpatialProcessingStereoSource env) samples
                   (earAttenuation this point leftEar) (earAttenuation this point rightEar)
                   (resize env (length samples), resize env (length samples))
      in [\<lparr> sampleTimeOf = sampleTime + word_of_int (float_to_int
              (earDelayMsecs env this point leftEar * real_of_int sampleRate / 1000)),
            bytesOf = fst bufs, numSamplesOf = int (length samples div 2) \<rparr>,
          \<lparr> sampleTimeOf = sampleTime + word_of_int (float_to_int
              (earDelayMsecs env this point rightEar * real_of_int sampleRate / 1000)),
            bytesOf = snd bufs, numSamplesOf = int (length samples div 2) \<rparr>])"
  by (rule injectAudiblePoint_audio)

theorem injectAudiblePoint_truncates_witness:
  "m_audio (injectAudiblePoint corridorEnv nearPoint oneFrame 0 48000 newReflector) =
     [\<lparr> sampleTimeOf = 2, bytesOf = [244, 1, 0, 0], numSamplesOf = 2 \<rparr>,
      \<lparr> sampleTimeOf = 2, bytesOf = [0, 0, 232, 3], numSamplesOf = 2 \<rparr>]"
proof -
  have len: "length oneFrame = 4" by (simp add: oneFrame_def)
  from injectAudiblePoint_truncates [of corridorEnv nearPoint oneFrame 0 48000 newReflector]
  show ?thesis
    by (simp add: nearPoint_ear Let_def resize_corridorEnv len
          attenuate_oneFrame float_to_int_example)
qed

text \<open>
  For the point \<open>nearPoint\<close> the delay is \<open>7/128\<close> ms, that is \<open>2.625\<close> samples at 48 kHz:
  both arrays are anchored at \<open>sampleTime + 2\<close>, where rounding would give \<open>3\<close>.
\<close>

theorem injectAudiblePoint_rounds_counterexample:
  "map sampleTimeOf (m_audio (injectAudiblePoint corridorEnv nearPoint oneFrame 0 48000 newReflector)) = [2, 2]
   \<and> (0 :: 32 word) + word_of_int (round (earDelayMsecs corridorEnv newReflector nearPoint
          (fst (earPositions corridorEnv)) * 48000 / 1000)) = 3
   \<and> (0 :: 32 word) + word_of_int (round (earDelayMsecs corridorEnv newReflector nearPoint
          (snd (earPositions corridorEnv)) * 48000 / 1000)) = 3"
proof -
  have "round (7 / 128 * 48000 / 1000 :: real) = 3" by (simp add: round_def)
  then show ?thesis
    by (simp add: inject_nearPoint_oneFrame nearPoint_ear)
qed


subsection \<open>Helper facts: batches of any size\<close>

lemma length_writeInt16 [simp]: "length (writeInt16 bytes i v) = length bytes"
  by (simp add: writeInt16_def)





lemma length_resize [simp]: "length (resize env n) = n"
  by (simp add: resize_def)




lemma resetStatistics_sel [simp]:
  "m_audio (resetStatistics this) = m_audio this"
  "m_audiblePoints (resetStatistics this) = m_audiblePoints this"
  "m_soundMsPerMeter (resetStatistics this) = m_soundMsPerMeter this"
  "m_preDelay (resetStatistics this) = m_preDelay this"
  "m_distanceAttenuationScalingFactor (resetStatistics this) = m_distanceAttenuationScalingFactor this"
  by (simp_all add: resetStatistics_def)

lemma averages_sel [simp]:
  "m_audio (averages n this) = m_audio this"
  by (simp add: averages_def Let_def)



lemma heardReflector_sel [simp]:
  "m_audiblePoints heardReflector = [nearPoint]"
  "m_audio heardReflector = []"
  "m_soundMsPerMeter heardReflector = 3"
  "m_preDelay heardReflector = 20"
  "m_distanceAttenuationScalingFactor heardReflector = 2"
  by (simp_all add: heardReflector_def)






lemma segments_snoc: "segments s (ps @ [p]) = segments s ps @ [glm_distance (last (s # ps)) p]"
  by (induction ps arbitrary: s) simp_all

lemma echoReflections_body_distances:
  "er_rightDistance (echoReflections_body env samples sampleTime sampleRate st p)
     = er_rightDistance st + glm_distance (er_start st) p"
  "er_leftDistance (echoReflections_body env samples sampleTime sampleRate st p)
     = er_leftDistance st + glm_distance (er_start st) p"
  "er_start (echoReflections_body env samples sampleTime sampleRate st p) = p"
  "er_bounceCount (echoReflections_body env samples sampleTime sampleRate st p) = er_bounceCount st + 1"
  by (simp_all add: echoReflections_body_def Let_def)

lemma echoReflections_loop_distances:
  "er_leftDistance (echoReflections_loop env origin ps samples sampleTime sampleRate this)
     = sum_list (segments origin ps)
   \<and> er_rightDistance (echoReflections_loop env origin ps samples sampleTime sampleRate this)
     = sum_list (segments origin ps)
   \<and> er_start (echoReflections_loop env origin ps samples sampleTime sampleRate this) = last (origin # ps)
   \<and> er_bounceCount (echoReflections_loop env origin ps samples sampleTime sampleRate this) = int (length ps)"
proof (induction ps rule: rev_induct)
  case Nil
  show ?case by (simp add: echoReflections_loop_def echoReflections_init_def)
next
  case (snoc p ps)
  then show ?case
    by (simp add: echoReflections_loop_def echoReflections_body_distances segments_snoc)
qed

subsection \<open>The injector of the chain engine\<close>

text \<open>
  C10. In \<^verbatim>\<open>echoReflections\<close>, after any number \<open>n\<close> of bounces of the reflection list,
  the accumulated left-ear distance equals the accumulated right-ear distance, and both
  are the sum of the lengths \<open>|start - end|\<close> of the segments traversed so far. The two
  ears' contributions of a bounce therefore differ only by the distance from the
  reflection point to the ear.
\<close>

theorem echoReflections_ears_share_path:
  "er_leftDistance (echoReflections_loop env origin (take n reflectionPoints) samples sampleTime sampleRate this)
     = er_rightDistance (echoReflections_loop env origin (take n reflectionPoints) samples sampleTime sampleRate this)
   \<and> er_rightDistance (echoReflections_loop env origin (take n reflectionPoints) samples sampleTime sampleRate this)
     = sum_list (segments origin (take n reflectionPoints))"
  by (simp add: echoReflections_loop_distances)

theorem echoReflections_ears_share_path_witness:
  "er_leftDistance (echoReflections_loop corridorEnv (Vec3 0 0 0) (take 2 [Vec3 3 0 0, Vec3 (- 1) 0 0, Vec3 2 0 0]) [] 0 48000 newReflector) = 7
   \<and> er_rightDistance (echoReflections_loop corridorEnv (Vec3 0 0 0) (take 2 [Vec3 3 0 0, Vec3 (- 1) 0 0, Vec3 2 0 0]) [] 0 48000 newReflector) = 7"
  using echoReflections_ears_share_path [of corridorEnv "Vec3 0 0 0" 2 "[Vec3 3 0 0, Vec3 (- 1) 0 0, Vec3 2 0 0]" "[]" 0 48000 newReflector]
  by (simp add: glm_distance_x)

subsection \<open>Helper facts: the diffusion engine\<close>

lemma analyzePath_finalized:
  "finalized path \<Longrightarrow>
     analyzePath env this path r = \<lparr> sr_path = path, sr_added = [], sr_points = [], sr_randCalls = r \<rparr>"
  by (simp add: analyzePath_def)

lemma analyzePath_too_many:
  "\<not> finalized path \<Longrightarrow> bounceCount path > ABSOLUTE_MAXIMUM_BOUNCE_COUNT \<Longrightarrow>
     analyzePath env this path r =
       \<lparr> sr_path = path\<lparr> finalized := True \<rparr>, sr_added = [], sr_points = [], sr_randCalls = r \<rparr>"
  by (simp add: analyzePath_def)

lemma analyzePath_miss:
  "\<not> finalized path \<Longrightarrow> bounceCount path \<le> ABSOLUTE_MAXIMUM_BOUNCE_COUNT \<Longrightarrow>
   findRayIntersection env (lastPoint path) (lastDirection path) = None \<Longrightarrow>
     analyzePath env this path r =
       \<lparr> sr_path = path\<lparr> finalized := True \<rparr>, sr_added = [], sr_points = [], sr_randCalls = r \<rparr>"
  by (simp add: analyzePath_def)

lemma analyzePath_hit:
  assumes "\<not> finalized path" "bounceCount path \<le> ABSOLUTE_MAXIMUM_BOUNCE_COUNT"
    and "findRayIntersection env (lastPoint path) (lastDirection path) = Some (d, face)"
  shows "analyzePath env this path r =
     (let added = (if spawns env this path d
                   then diffusions env face (bounceEnd path d) (partialDiffusionAttenuation this path)
                          (bounceDelay env this path d) (bounceDistance path d)
                          (nat (m_diffusionFanout this)) r
                   else ([], r))
      in if emits env this path d
         then if continues env this path d
              then \<lparr> sr_path = path\<lparr> reflections := reflections path @ [bounceEnd path d],
                        lastDirection := glm_normalize (glm_reflect (lastDirection path)
                                            (fst (getFaceNormal env face (snd added)))),
                        lastPoint := bounceEnd path d,
                        lastAttenuation := reflectiveAttenuation this path,
                        lastDelay := bounceDelay env this path d,
                        lastDistance := bounceDistance path d,
                        bounceCount := bounceCount path + 1 \<rparr>,
                     sr_added = fst added, sr_points = [bouncePoint env this path d],
                     sr_randCalls = snd (getFaceNormal env face (snd added)) \<rparr>
              else \<lparr> sr_path = path\<lparr> reflections := reflections path @ [bounceEnd path d],
                                     finalized := True \<rparr>,
                     sr_added = fst added, sr_points = [bouncePoint env this path d],
                     sr_randCalls = snd added \<rparr>
         else \<lparr> sr_path = path\<lparr> finalized := True \<rparr>, sr_added = fst added, sr_points = [],
                sr_randCalls = snd added \<rparr>)"
  using assms
  by (simp add: analyzePath_def Let_def bounceEnd_def bounceDistance_def bounceDelay_def
        bounceTotalDelay_def toListenerAttenuation_def reflectiveAttenuation_def
        totalDiffusionAttenuation_def partialDiffusionAttenuation_def spawns_def emits_def
        continues_def bouncePoint_def getSurfaceCharacteristics_def split: prod.splits)


lemma analyzePath_hit_points:
  assumes "\<not> finalized path" "bounceCount path \<le> ABSOLUTE_MAXIMUM_BOUNCE_COUNT"
    and "findRayIntersection env (lastPoint path) (lastDirection path) = Some (d, face)"
  shows "sr_points (analyzePath env this path r) =
           (if emits env this path d then [bouncePoint env this path d] else [])"
  by (simp add: analyzePath_hit [OF assms] Let_def)





lemma analyzePathsSingleStep_keeps [simp]:
  "m_soundMsPerMeter (fst (analyzePathsSingleStep env this)) = m_soundMsPerMeter this"
  "m_preDelay (fst (analyzePathsSingleStep env this)) = m_preDelay this"
  "m_distanceAttenuationScalingFactor (fst (analyzePathsSingleStep env this)) = m_distanceAttenuationScalingFactor this"
  "m_diffusionFanout (fst (analyzePathsSingleStep env this)) = m_diffusionFanout this"
  "m_absorptionRatio (fst (analyzePathsSingleStep env this)) = m_absorptionRatio this"
  "m_diffusionRatio (fst (analyzePathsSingleStep env this)) = m_diffusionRatio this"
  "m_origin (fst (analyzePathsSingleStep env this)) = m_origin this"
  "m_orientation (fst (analyzePathsSingleStep env this)) = m_orientation this"
  "m_listenerPosition (fst (analyzePathsSingleStep env this)) = m_listenerPosition this"
  "m_withDiffusion (fst (analyzePathsSingleStep env this)) = m_withDiffusion this"
  "m_audio (fst (analyzePathsSingleStep env this)) = m_audio this"
  by (simp_all add: analyzePathsSingleStep_def split: prod.splits)




lemma getFaceNormal_plain:
  "\<not> AudioSpatialProcessingSlightlyRandomSurfaces env \<Longrightarrow>
     fst (getFaceNormal env face r) = axisNormal face"
  by (cases face) (simp_all add: getFaceNormal_def Let_def)

lemma reflect_x:
  "glm_normalize (glm_reflect (Vec3 1 0 0) (Vec3 (- 1) 0 0)) = Vec3 (- 1) 0 0"
  "glm_normalize (glm_reflect (Vec3 (- 1) 0 0) (Vec3 1 0 0)) = Vec3 1 0 0"
  by (simp_all add: glm_normalize_def glm_reflect_def glm_dot_def vscale_def vsub_def)

subsection \<open>Helper facts: bouncing in the corridor\<close>

lemma bouncing_hit:
  assumes b: "bouncing k path"
  obtains x s d face where "lastPoint path = Vec3 x 0 0" "lastDirection path = Vec3 s 0 0"
    "\<bar>x\<bar> < 1 / 32" "s = 1 \<or> s = - 1" "d = 1 / 32 - s * x" "0 < d" "d < 1 / 16"
    "face = (if s = 1 then MIN_X_FACE else MAX_X_FACE)"
    "findRayIntersection corridorEnv (lastPoint path) (lastDirection path) = Some (d, face)"
proof -
  obtain x y z where p: "lastPoint path = Vec3 x y z" by (cases "lastPoint path")
  with b have yz: "y = 0" "z = 0" and x: "\<bar>x\<bar> < 1 / 32" by (simp_all add: bouncing_def)
  from b consider "lastDirection path = Vec3 1 0 0" | "lastDirection path = Vec3 (- 1) 0 0"
    by (auto simp: bouncing_def)
  then show ?thesis
  proof cases
    case 1
    show ?thesis
    proof (rule that [of x 1 "1 / 32 - 1 * x" MIN_X_FACE])
      show "findRayIntersection corridorEnv (lastPoint path) (lastDirection path)
              = Some (1 / 32 - 1 * x, MIN_X_FACE)"
        using x by (simp add: p yz 1 corridor_def)
    qed (use x in \<open>simp_all add: p yz 1\<close>)
  next
    case 2
    show ?thesis
    proof (rule that [of x "- 1" "1 / 32 - (- 1) * x" MAX_X_FACE])
      show "findRayIntersection corridorEnv (lastPoint path) (lastDirection path)
              = Some (1 / 32 - (- 1) * x, MAX_X_FACE)"
        using x by (simp add: p yz 2 corridor_def)
    qed (use x in \<open>simp_all add: p yz 2\<close>)
  qed
qed

lemma bouncing_step:
  assumes m: "mirrorParams this" and b: "bouncing k path" and k: "0 \<le> k" "k \<le> 10"
  shows "bouncing (k + 1) (sr_path (analyzePath corridorEnv this path r))
       \<and> sr_added (analyzePath corridorEnv this path r) = []
       \<and> sr_points (analyzePath corridorEnv this path r)
           = [bouncePoint corridorEnv this path (1 / 32 - vx (lastDirection path) * vx (lastPoint path))]
       \<and> lastPoint (sr_path (analyzePath corridorEnv this path r))
           = bounceEnd path (1 / 32 - vx (lastDirection path) * vx (lastPoint path))
       \<and> lastDistance (sr_path (analyzePath corridorEnv this path r))
           = bounceDistance path (1 / 32 - vx (lastDirection path) * vx (lastPoint path))
       \<and> lastDelay (sr_path (analyzePath corridorEnv this path r))
           = bounceDelay corridorEnv this path (1 / 32 - vx (lastDirection path) * vx (lastPoint path))"
proof -
  from b obtain x s d face where h:
    "lastPoint path = Vec3 x 0 0" "lastDirection path = Vec3 s 0 0"
    "\<bar>x\<bar> < 1 / 32" "s = 1 \<or> s = - 1" "d = 1 / 32 - s * x" "0 < d" "d < 1 / 16"
    "face = (if s = 1 then MIN_X_FACE else MAX_X_FACE)"
    "findRayIntersection corridorEnv (lastPoint path) (lastDirection path) = Some (d, face)"
    by (rule bouncing_hit)
  from b have nf: "\<not> finalized path" and bc: "bounceCount path = k"
    and rl: "int (length (reflections path)) = k"
    and att: "lastAttenuation path = 1"
    and dist: "0 \<le> lastDistance path" "lastDistance path \<le> real_of_int k / 16"
    and del: "0 \<le> lastDelay path" "lastDelay path \<le> 3 * real_of_int k / 16"
    by (simp_all add: bouncing_def)
  have le: "bounceCount path \<le> ABSOLUTE_MAXIMUM_BOUNCE_COUNT"
    using k bc by (simp add: ABSOLUTE_MAXIMUM_BOUNCE_COUNT_def)
  have kr: "real_of_int k \<le> 10" "0 \<le> real_of_int k" using k by simp_all
  define x' where "x' = x + s * (d * (999 / 1000))"
  have e: "bounceEnd path d = Vec3 x' 0 0"
    by (simp add: bounceEnd_def h(1,2) vadd_def vscale_def SLIGHTLY_SHORT_def x'_def)
  have x'b: "\<bar>x'\<bar> < 1 / 32"
    using h(4)
  proof
    assume s: "s = 1"
    from h(3) have xr: "- (1 / 32) < x" "x < 1 / 32" by arith+
    have "x' = x / 1000 + 999 / 32000" unfolding x'_def h(5) s by (simp add: field_simps)
    with xr show ?thesis by arith
  next
    assume s: "s = - 1"
    from h(3) have xr: "- (1 / 32) < x" "x < 1 / 32" by arith+
    have "x' = x / 1000 - 999 / 32000" unfolding x'_def h(5) s by (simp add: field_simps)
    with xr show ?thesis by arith
  qed
  have seg: "glm_distance (lastPoint path) (bounceEnd path d) = d * (999 / 1000)"
  proof -
    have "x' - x = s * (d * (999 / 1000))" by (simp add: x'_def)
    then have "\<bar>x' - x\<bar> = \<bar>s\<bar> * \<bar>d * (999 / 1000)\<bar>" by (simp only: abs_mult)
    also have "\<dots> = d * (999 / 1000)" using h(4,6) by auto
    finally show ?thesis by (simp add: e h(1) glm_distance_x)
  qed
  have bd: "bounceDistance path d = lastDistance path + d * (999 / 1000)"
    by (simp add: bounceDistance_def seg)
  from m have pm: "m_listenerPosition this = Vec3 0 0 0" "m_absorptionRatio this = 0"
    "m_diffusionRatio this = 0" "m_soundMsPerMeter this = 3"
    "m_distanceAttenuationScalingFactor this = 2"
    by (simp_all add: mirrorParams_def)
  have tld: "glm_distance (bounceEnd path d) (Vec3 0 0 0) = \<bar>x'\<bar>"
    by (simp add: e glm_distance_x)
  have sum_pos: "0 < \<bar>x'\<bar> + bounceDistance path d"
    using h(6) dist(1) by (simp add: bd add_nonneg_pos add_pos_nonneg)
  have sum_le: "\<bar>x'\<bar> + bounceDistance path d \<le> 1"
    using x'b h(7) dist(2) kr by (simp add: bd)
  have tl: "toListenerAttenuation this path d = 1"
    unfolding toListenerAttenuation_def pm(1) tld
    using sum_pos sum_le by (intro distanceAttenuation_near) (simp_all add: pm)
  have ra: "reflectiveAttenuation this path = 1" "totalDiffusionAttenuation this path = 0"
    "partialDiffusionAttenuation this path = 0"
    using att
    by (simp_all add: reflectiveAttenuation_def totalDiffusionAttenuation_def
          partialDiffusionAttenuation_def pm)
  have bdel: "bounceDelay corridorEnv this path d = lastDelay path + 3 * d"
    by (simp add: bounceDelay_def getDelayFromDistance_def pm)
  have btd: "bounceTotalDelay corridorEnv this path d = lastDelay path + 3 * d + 3 * \<bar>x'\<bar>"
    by (simp add: bounceTotalDelay_def bdel tld getDelayFromDistance_def pm)
  have late: "bounceTotalDelay corridorEnv this path d < MAXIMUM_DELAY_MS"
    using del(2) kr h(7) x'b by (simp add: btd MAXIMUM_DELAY_MS_def)
  have sp: "\<not> spawns corridorEnv this path d"
    by (simp add: spawns_def ra MINIMUM_ATTENUATION_TO_REFLECT_def)
  have em: "emits corridorEnv this path d"
    using late by (simp add: emits_def ra tl MINIMUM_ATTENUATION_TO_REFLECT_def)
  have co: "continues corridorEnv this path d"
    using em by (simp add: continues_def ra tl MINIMUM_ATTENUATION_TO_REFLECT_def)
  have nd: "glm_normalize (glm_reflect (lastDirection path) (fst (getFaceNormal corridorEnv face r)))
              = Vec3 (- s) 0 0"
    using h(4) by (auto simp: getFaceNormal_plain h(2,8) reflect_x)
  have res: "analyzePath corridorEnv this path r =
      \<lparr> sr_path = path\<lparr> reflections := reflections path @ [bounceEnd path d],
                lastDirection := Vec3 (- s) 0 0,
                lastPoint := bounceEnd path d,
                lastAttenuation := reflectiveAttenuation this path,
                lastDelay := bounceDelay corridorEnv this path d,
                lastDistance := bounceDistance path d,
                bounceCount := bounceCount path + 1 \<rparr>,
        sr_added = [], sr_points = [bouncePoint corridorEnv this path d],
        sr_randCalls = snd (getFaceNormal corridorEnv face r) \<rparr>"
    by (simp add: analyzePath_hit [OF nf le h(9)] sp em co nd)
  have d_eq: "1 / 32 - vx (lastDirection path) * vx (lastPoint path) = d"
    by (simp add: h(1,2,5))
  have "bouncing (k + 1) (sr_path (analyzePath corridorEnv this path r))"
    unfolding res bouncing_def
    using nf bc rl x'b h(4,6,7) dist del
    by (auto simp: e ra bd bdel)
  then show ?thesis by (simp add: res d_eq)
qed

lemma inPhase_step:
  assumes m: "mirrorParams this" and p: "inPhase k b path" and k: "0 \<le> k" "k \<le> 10"
  shows "inPhase (k + 1) b (sr_path (analyzePath corridorEnv this path r))
       \<and> sr_added (analyzePath corridorEnv this path r) = []"
proof (cases b)
  case True
  with p have "bouncing k path" by (simp add: inPhase_def)
  from bouncing_step [OF m this k, of r] True show ?thesis by (simp add: inPhase_def)
next
  case False
  with p have bc: "bounceCount path = 0" "reflections path = []" and d: "finalized path \<or> doomed path"
    by (simp_all add: inPhase_def)
  show ?thesis
  proof (cases "finalized path")
    case True
    then show ?thesis using False bc by (simp add: analyzePath_finalized inPhase_def)
  next
    case nf: False
    with d have "corridor (lastPoint path) (lastDirection path) = None" by (simp add: doomed_def)
    then have "findRayIntersection corridorEnv (lastPoint path) (lastDirection path) = None" by simp
    from analyzePath_miss [OF nf _ this, of this r] bc False show ?thesis
      by (simp add: ABSOLUTE_MAXIMUM_BOUNCE_COUNT_def inPhase_def)
  qed
qed

lemma inPhase_last:
  assumes p: "inPhase 11 b path"
  shows "finished b (sr_path (analyzePath corridorEnv this path r))
       \<and> sr_added (analyzePath corridorEnv this path r) = []"
proof (cases b)
  case True
  with p have "\<not> finalized path" "bounceCount path = 11" "length (reflections path) = 11"
    by (simp_all add: inPhase_def bouncing_def)
  then show ?thesis using True
    by (simp add: analyzePath_too_many ABSOLUTE_MAXIMUM_BOUNCE_COUNT_def finished_def)
next
  case False
  with p have bc: "bounceCount path = 0" "reflections path = []" and d: "finalized path \<or> doomed path"
    by (simp_all add: inPhase_def)
  show ?thesis
  proof (cases "finalized path")
    case True
    then show ?thesis using False bc by (simp add: analyzePath_finalized finished_def)
  next
    case nf: False
    with d have "corridor (lastPoint path) (lastDirection path) = None" by (simp add: doomed_def)
    then have "findRayIntersection corridorEnv (lastPoint path) (lastDirection path) = None" by simp
    from analyzePath_miss [OF nf _ this, of this r] bc False show ?thesis
      by (simp add: ABSOLUTE_MAXIMUM_BOUNCE_COUNT_def finished_def)
  qed
qed

lemma finished_step:
  assumes "finished b path"
  shows "finished b (sr_path (analyzePath env this path r)) \<and> sr_added (analyzePath env this path r) = []"
  using assms by (simp add: finished_def analyzePath_finalized)

lemma analyzeEach_lift:
  assumes step: "\<And>b p r. P b p \<Longrightarrow>
      Q b (sr_path (analyzePath env this p r)) \<and> sr_added (analyzePath env this p r) = []"
  shows "list_all2 P bs paths \<Longrightarrow>
      list_all2 Q bs (fst (analyzeEach env this paths r)) \<and> fst (snd (analyzeEach env this paths r)) = []"
proof (induction bs paths arbitrary: r rule: list_all2_induct)
  case Nil
  show ?case by simp
next
  case (Cons b bs p paths)
  from Cons.IH [of "sr_randCalls (analyzePath env this p r)"] step [OF Cons.hyps(1), of r]
  show ?case by (simp add: Let_def case_prod_beta)
qed

lemma analyzeEach_active:
  "snd (snd (snd (snd (analyzeEach env this paths r))))
     = int (length (filter (\<lambda>p. \<not> finalized p) paths))"
  by (induction paths arbitrary: r) (simp_all add: Let_def case_prod_beta)

lemma analyzePathsSingleStep_paths:
  "m_audioPaths (fst (analyzePathsSingleStep env this))
     = fst (analyzeEach env this (m_audioPaths this) (randCalls this))
       @ fst (snd (analyzeEach env this (m_audioPaths this) (randCalls this)))"
  "snd (analyzePathsSingleStep env this)
     = int (length (filter (\<lambda>p. \<not> finalized p) (m_audioPaths this)))"
  using analyzeEach_active [of env this "m_audioPaths this" "randCalls this"]
  by (simp_all add: analyzePathsSingleStep_def case_prod_beta)

lemma mirrorParams_step: "mirrorParams (fst (analyzePathsSingleStep env this)) = mirrorParams this"
  by (simp add: mirrorParams_def)

lemma seedsBouncing_active:
  assumes "list_all2 (inPhase k) seedsBouncing paths"
  shows "0 < int (length (filter (\<lambda>p. \<not> finalized p) paths))"
proof -
  from assms obtain p ps where "paths = p # ps" "inPhase k True p"
    by (auto simp: seedsBouncing_def list_all2_Cons1)
  then show ?thesis by (simp add: inPhase_def bouncing_def)
qed

lemma finished_none_active:
  assumes "list_all2 finished bs paths"
  shows "int (length (filter (\<lambda>p. \<not> finalized p) paths)) = 0"
  using assms by (induction rule: list_all2_induct) (simp_all add: finished_def)

lemma corridor_trace_from_phase:
  "mirrorParams this \<Longrightarrow> list_all2 (inPhase k) seedsBouncing (m_audioPaths this) \<Longrightarrow>
   0 \<le> k \<Longrightarrow> k + int m = 11 \<Longrightarrow> 0 < n \<Longrightarrow>
     \<exists>this'. analyzePaths_loop (m + 2) corridorEnv this n = Some this'
        \<and> list_all2 finished seedsBouncing (m_audioPaths this')"
proof (induction m arbitrary: k this n)
  case 0
  then have k: "k = 11" by simp
  let ?t = "fst (analyzePathsSingleStep corridorEnv this)"
  let ?c = "snd (analyzePathsSingleStep corridorEnv this)"
  have l: "list_all2 finished seedsBouncing (fst (analyzeEach corridorEnv this (m_audioPaths this) (randCalls this)))
      \<and> fst (snd (analyzeEach corridorEnv this (m_audioPaths this) (randCalls this))) = []"
    using "0.prems"(2) unfolding k by (rule analyzeEach_lift [rotated]) (rule inPhase_last)
  then have t: "list_all2 finished seedsBouncing (m_audioPaths ?t)"
    by (simp add: analyzePathsSingleStep_paths)
  have c: "0 < ?c"
    using seedsBouncing_active [OF "0.prems"(2)] by (simp add: analyzePathsSingleStep_paths)
  let ?t' = "fst (analyzePathsSingleStep corridorEnv ?t)"
  have "list_all2 finished seedsBouncing (fst (analyzeEach corridorEnv ?t (m_audioPaths ?t) (randCalls ?t)))
      \<and> fst (snd (analyzeEach corridorEnv ?t (m_audioPaths ?t) (randCalls ?t))) = []"
    using t by (rule analyzeEach_lift [rotated]) (rule finished_step)
  then have t': "list_all2 finished seedsBouncing (m_audioPaths ?t')"
    by (simp add: analyzePathsSingleStep_paths)
  have c': "snd (analyzePathsSingleStep corridorEnv ?t) = 0"
    using finished_none_active [OF t] by (simp add: analyzePathsSingleStep_paths)
  have "analyzePaths_loop (0 + 2) corridorEnv this n = Some ?t'"
    using "0.prems"(5) c c' by (simp add: numeral_2_eq_2 case_prod_beta)
  with t' show ?case by blast
next
  case (Suc m)
  then have k: "k \<le> 10" by simp
  let ?t = "fst (analyzePathsSingleStep corridorEnv this)"
  let ?c = "snd (analyzePathsSingleStep corridorEnv this)"
  have "list_all2 (inPhase (k + 1)) seedsBouncing (fst (analyzeEach corridorEnv this (m_audioPaths this) (randCalls this)))
      \<and> fst (snd (analyzeEach corridorEnv this (m_audioPaths this) (randCalls this))) = []"
    using Suc.prems(2)
    by (rule analyzeEach_lift [rotated]) (rule inPhase_step [OF Suc.prems(1) _ Suc.prems(3) k])
  then have t: "list_all2 (inPhase (k + 1)) seedsBouncing (m_audioPaths ?t)"
    by (simp add: analyzePathsSingleStep_paths)
  have c: "0 < ?c"
    using seedsBouncing_active [OF Suc.prems(2)] by (simp add: analyzePathsSingleStep_paths)
  have mp: "mirrorParams ?t" using Suc.prems(1) by (simp add: mirrorParams_step)
  from Suc.IH [OF mp t _ _ c] Suc.prems(3,4)
  obtain this' where "analyzePaths_loop (m + 2) corridorEnv ?t ?c = Some this'"
    "list_all2 finished seedsBouncing (m_audioPaths this')" by auto
  then show ?case using Suc.prems(5) by (auto simp: case_prod_beta)
qed

lemma mirrorReflector_sel [simp]:
  "m_preDelay mirrorReflector = 20"
  "m_soundMsPerMeter mirrorReflector = 3"
  "m_distanceAttenuationScalingFactor mirrorReflector = 2"
  "m_diffusionFanout mirrorReflector = 5"
  "m_absorptionRatio mirrorReflector = 0"
  "m_diffusionRatio mirrorReflector = 0"
  "m_origin mirrorReflector = Vec3 0 0 0"
  "m_orientation mirrorReflector = Quat 1 0 0 0"
  "m_listenerPosition mirrorReflector = Vec3 0 0 0"
  by (simp_all add: mirrorReflector_def)

lemma mirrorParams_mirrorReflector:
  "mirrorParams mirrorReflector"
  "mirrorParams (mirrorReflector\<lparr> m_audioPaths := ps, m_audiblePoints := qs \<rparr>)"
  "mirrorParams (mirrorReflector\<lparr> m_audioPaths := ps', m_audiblePoints := qs, m_audioPaths := ps \<rparr>)"
  by (simp_all add: mirrorParams_def)

lemma identity_axes:
  "glm_normalize (glm_rotate (Quat 1 0 0 0) (Vec3 1 0 0)) = Vec3 1 0 0"
  "glm_normalize (glm_rotate (Quat 1 0 0 0) (Vec3 0 1 0)) = Vec3 0 1 0"
  "glm_normalize (glm_rotate (Quat 1 0 0 0) (Vec3 0 0 (- 1))) = Vec3 0 0 (- 1)"
  by (simp_all add: glm_normalize_def glm_rotate_def glm_cross_def glm_dot_def vadd_def vscale_def Let_def)

lemma corridor_misses:
  "y \<noteq> 0 \<or> z \<noteq> 0 \<Longrightarrow> corridor start (Vec3 x y z) = None"
  by (auto simp: corridor_def)

lemma seed_doomed:
  "y \<noteq> 0 \<or> z \<noteq> 0 \<Longrightarrow> inPhase 0 False (addSoundSource start (Vec3 x y z) a dl ds)"
  by (simp add: inPhase_def doomed_def addSoundSource_def newAudioPath_def corridor_misses)

lemma seed_bouncing:
  "s = 1 \<or> s = - 1 \<Longrightarrow> inPhase 0 True (addSoundSource (Vec3 0 0 0) (Vec3 s 0 0) 1 0 0)"
  by (auto simp: inPhase_def bouncing_def addSoundSource_def newAudioPath_def)

lemma corridor_seedPaths:
  assumes "m_orientation this = Quat 1 0 0 0" "m_origin this = Vec3 0 0 0"
  shows "seedPaths corridorEnv this =
     map (\<lambda>direction. addSoundSource (Vec3 0 0 0) direction 1 0 0)
       [Vec3 1 0 0, Vec3 0 0 (- 1), Vec3 0 1 0, Vec3 0 (- 1) 0, Vec3 0 0 1, Vec3 (- 1) 0 0,
        glm_normalize (Vec3 1 1 (- 1)), glm_normalize (Vec3 (- 1) 1 (- 1)),
        glm_normalize (Vec3 1 1 1), glm_normalize (Vec3 (- 1) 1 1),
        glm_normalize (Vec3 1 (- 1) (- 1)), glm_normalize (Vec3 (- 1) (- 1) (- 1)),
        glm_normalize (Vec3 1 (- 1) 1), glm_normalize (Vec3 (- 1) (- 1) 1)]"
  by (simp add: seedPaths_def Let_def assms identity_axes vneg_def vadd_def)

lemma diagonal_seed_doomed:
  "y \<noteq> 0 \<Longrightarrow> inPhase 0 False (addSoundSource start (glm_normalize (Vec3 x y z)) a dl ds)"
  by (simp add: glm_normalize_def vscale_def glm_dot_def seed_doomed add_nonneg_eq_0_iff)

lemma mirror_seeds:
  "list_all2 (inPhase 0) seedsBouncing
     (seedPaths corridorEnv (mirrorReflector\<lparr> m_audioPaths := [], m_audiblePoints := [] \<rparr>))"
  by (simp add: corridor_seedPaths seedsBouncing_def seed_doomed seed_bouncing diagonal_seed_doomed)

lemma finished_counts:
  assumes "list_all2 finished bs paths"
  shows "map bounceCount paths = map (\<lambda>b. if b then 11 else 0) bs
       \<and> map (\<lambda>path. length (reflections path)) paths = map (\<lambda>b. if b then 11 else 0) bs
       \<and> list_all finalized paths"
  using assms by (induction rule: list_all2_induct) (simp_all add: finished_def)

lemma corridor_trace:
  "\<exists>this'. analyzePaths 13 corridorEnv mirrorReflector = Some this'
     \<and> list_all2 finished seedsBouncing (m_audioPaths this')"
proof -
  let ?s = "mirrorReflector\<lparr> m_audioPaths := [], m_audiblePoints := [] \<rparr>"
  let ?t = "?s\<lparr> m_audioPaths := seedPaths corridorEnv ?s \<rparr>"
  have mp: "mirrorParams ?t" by (simp add: mirrorParams_def)
  have ph: "list_all2 (inPhase 0) seedsBouncing (m_audioPaths ?t)"
    using mirror_seeds by simp
  have n: "0 < int (length (m_audioPaths ?t))"
    by (simp add: corridor_seedPaths)
  from corridor_trace_from_phase [OF mp ph _ _ n, of 11]
  obtain u where u: "analyzePaths_loop 13 corridorEnv ?t (int (length (m_audioPaths ?t))) = Some u"
    "list_all2 finished seedsBouncing (m_audioPaths u)" by auto
  then show ?thesis by (simp add: analyzePaths_def Let_def)
qed

subsection \<open>The bounce count of the diffusion engine\<close>

text \<open>
  C3. The claim is that no path ends a trace with a bounce count above
  \<^verbatim>\<open>ABSOLUTE_MAXIMUM_BOUNCE_COUNT\<close> (10). The test at the start of a step is
  \<open>bounceCount > 10\<close>, so a path with bounce count 10 takes one more bounce. In the
  corridor with perfect mirrors the seeds to the right and to the left each end the
  trace finalized with bounce count 11 and 11 reflection points.
\<close>

theorem diffusion_path_reaches_eleven_bounces:
  "map_option bounceCounts (analyzePaths 13 corridorEnv mirrorReflector)
     = Some [11, 0, 0, 0, 0, 11, 0, 0, 0, 0, 0, 0, 0, 0]
   \<and> map_option reflectionCounts (analyzePaths 13 corridorEnv mirrorReflector)
     = Some [11, 0, 0, 0, 0, 11, 0, 0, 0, 0, 0, 0, 0, 0]
   \<and> map_option allFinalized (analyzePaths 13 corridorEnv mirrorReflector) = Some True"
proof -
  from corridor_trace obtain this' where t: "analyzePaths 13 corridorEnv mirrorReflector = Some this'"
    "list_all2 finished seedsBouncing (m_audioPaths this')" by blast
  from finished_counts [OF t(2)] show ?thesis
    by (simp add: t(1) bounceCounts_def reflectionCounts_def allFinalized_def seedsBouncing_def)
qed

subsection \<open>Helper facts: the first bounce of the right seed\<close>

lemma rightSeed_sel [simp]:
  "finalized rightSeed = False" "bounceCount rightSeed = 0"
  "lastPoint rightSeed = Vec3 0 0 0" "lastDirection rightSeed = Vec3 1 0 0"
  "lastDelay rightSeed = 0" "lastDistance rightSeed = 0" "lastAttenuation rightSeed = 1"
  "reflections rightSeed = []"
  by (simp_all add: rightSeed_def addSoundSource_def newAudioPath_def)

lemma rightSeed_hit:
  "findRayIntersection corridorEnv (lastPoint rightSeed) (lastDirection rightSeed) = Some (1 / 32, MIN_X_FACE)"
  by (simp add: corridor_def)

lemma corridor_origin_right: "corridor (Vec3 0 0 0) (Vec3 1 0 0) = Some (1 / 32, MIN_X_FACE)"
  by (simp add: corridor_def)

lemma rightSeed_bounce:
  "bounceEnd rightSeed (1 / 32) = Vec3 (999 / 32000) 0 0"
  "bounceDistance rightSeed (1 / 32) = 999 / 32000"
  "glm_distance (Vec3 0 0 0) (bounceEnd rightSeed (1 / 32)) = 999 / 32000"
  "bounceDelay corridorEnv mirrorReflector rightSeed (1 / 32) = 3 / 32"
  "bounceTotalDelay corridorEnv mirrorReflector rightSeed (1 / 32) = 5997 / 32000"
  "toListenerAttenuation mirrorReflector rightSeed (1 / 32) = 1"
  "reflectiveAttenuation mirrorReflector rightSeed = 1"
  "totalDiffusionAttenuation mirrorReflector rightSeed = 0"
  by (simp_all add: bounceEnd_def bounceDistance_def bounceDelay_def bounceTotalDelay_def
        toListenerAttenuation_def reflectiveAttenuation_def totalDiffusionAttenuation_def
        vadd_def vscale_def SLIGHTLY_SHORT_def glm_distance_x getDelayFromDistance_def
        distanceAttenuation_near)

lemma rightSeed_emits:
  "emits corridorEnv mirrorReflector rightSeed (1 / 32)"
  "continues corridorEnv mirrorReflector rightSeed (1 / 32)"
  by (simp_all add: emits_def continues_def rightSeed_bounce MINIMUM_ATTENUATION_TO_REFLECT_def
        MAXIMUM_DELAY_MS_def)

lemma analyzePath_hit_path:
  assumes "\<not> finalized path" "bounceCount path \<le> ABSOLUTE_MAXIMUM_BOUNCE_COUNT"
    and "findRayIntersection env (lastPoint path) (lastDirection path) = Some (d, face)"
    and "continues env this path d"
  shows "lastPoint (sr_path (analyzePath env this path r)) = bounceEnd path d"
    "lastDistance (sr_path (analyzePath env this path r)) = bounceDistance path d"
    "lastDelay (sr_path (analyzePath env this path r)) = bounceDelay env this path d"
    "bounceCount (sr_path (analyzePath env this path r)) = bounceCount path + 1"
    "finalized (sr_path (analyzePath env this path r)) = False"
  using assms(1,4) by (simp_all add: analyzePath_hit [OF assms(1-3)] Let_def continues_def)


subsection \<open>Audible points of the diffusion engine\<close>



subsection \<open>Distance and delay of a bounce\<close>

text \<open>
  C4, amended. When a path of the diffusion engine that is not finalized hits a surface
  at distance \<open>d\<close> and the bounce is audible, then with \<open>end = start + dir \<cdot> d \<cdot> 0.999\<close> the
  new accumulated distance is \<open>s' = s + |start - end|\<close>, from the shortened segment, and
  the new accumulated delay is \<open>\<delta>' = \<delta> + getDelayFromDistance d\<close>, from the distance of the
  hit itself, not shortened. The audible point emitted carries \<open>end\<close>, \<open>s'\<close> and \<open>\<delta>'\<close>, and so
  does the path when it continues.
\<close>

theorem bounce_distance_and_delay:
  assumes "\<not> finalized path" "bounceCount path \<le> ABSOLUTE_MAXIMUM_BOUNCE_COUNT"
    and "findRayIntersection env (lastPoint path) (lastDirection path) = Some (d, face)"
    and "emits env this path d"
  shows "bounceEnd path d = vadd (lastPoint path) (vscale (lastDirection path) (d * (999 / 1000)))
       \<and> map location (sr_points (analyzePath env this path r)) = [bounceEnd path d]
       \<and> map distance (sr_points (analyzePath env this path r))
           = [lastDistance path + glm_distance (lastPoint path) (bounceEnd path d)]
       \<and> map delay (sr_points (analyzePath env this path r))
           = [lastDelay path + getDelayFromDistance env this d]
       \<and> (continues env this path d \<longrightarrow>
            lastPoint (sr_path (analyzePath env this path r)) = bounceEnd path d
          \<and> lastDistance (sr_path (analyzePath env this path r))
              = lastDistance path + glm_distance (lastPoint path) (bounceEnd path d)
          \<and> lastDelay (sr_path (analyzePath env this path r))
              = lastDelay path + getDelayFromDistance env this d)"
  using assms(4)
  by (simp add: analyzePath_hit_points [OF assms(1-3)] analyzePath_hit_path [OF assms(1-3)]
        bouncePoint_def bounceDistance_def bounceDelay_def)
     (simp add: bounceEnd_def SLIGHTLY_SHORT_def)

theorem bounce_distance_and_delay_witness:
  "emits corridorEnv mirrorReflector rightSeed (1 / 32)
   \<and> continues corridorEnv mirrorReflector rightSeed (1 / 32)
   \<and> map location (sr_points (analyzePath corridorEnv mirrorReflector rightSeed 0)) = [Vec3 (999 / 32000) 0 0]
   \<and> map distance (sr_points (analyzePath corridorEnv mirrorReflector rightSeed 0)) = [999 / 32000]
   \<and> map delay (sr_points (analyzePath corridorEnv mirrorReflector rightSeed 0)) = [3 / 32]
   \<and> lastDistance (sr_path (analyzePath corridorEnv mirrorReflector rightSeed 0)) = 999 / 32000
   \<and> lastDelay (sr_path (analyzePath corridorEnv mirrorReflector rightSeed 0)) = 3 / 32"
proof -
  have nf: "\<not> finalized rightSeed" and le: "bounceCount rightSeed \<le> ABSOLUTE_MAXIMUM_BOUNCE_COUNT"
    by (simp_all add: ABSOLUTE_MAXIMUM_BOUNCE_COUNT_def)
  from bounce_distance_and_delay [OF nf le rightSeed_hit rightSeed_emits(1), of 0] rightSeed_emits
  show ?thesis
    by (simp add: rightSeed_bounce getDelayFromDistance_def glm_distance_x)
qed

text \<open>
  At the first bounce of the right seed in the corridor the hit is at \<open>1/32\<close>: the delay
  becomes \<open>3 \<cdot> 1/32\<close>, where the shortened segment would give \<open>3 \<cdot> 0.999/32\<close>.
\<close>

theorem bounce_delay_from_segment_counterexample:
  "findRayIntersection corridorEnv (lastPoint rightSeed) (lastDirection rightSeed) = Some (1 / 32, MIN_X_FACE)
   \<and> lastDelay (sr_path (analyzePath corridorEnv mirrorReflector rightSeed 0)) = 3 / 32
   \<and> lastDelay rightSeed + getDelayFromDistance corridorEnv mirrorReflector
        (glm_distance (lastPoint rightSeed) (bounceEnd rightSeed (1 / 32))) = 2997 / 32000
   \<and> lastDelay (sr_path (analyzePath corridorEnv mirrorReflector rightSeed 0)) \<noteq>
        lastDelay rightSeed + getDelayFromDistance corridorEnv mirrorReflector
          (glm_distance (lastPoint rightSeed) (bounceEnd rightSeed (1 / 32)))"
proof -
  have nf: "\<not> finalized rightSeed" and le: "bounceCount rightSeed \<le> ABSOLUTE_MAXIMUM_BOUNCE_COUNT"
    by (simp_all add: ABSOLUTE_MAXIMUM_BOUNCE_COUNT_def)
  from analyzePath_hit_path(3) [OF nf le rightSeed_hit rightSeed_emits(2), of 0]
  show ?thesis
    by (simp add: corridor_origin_right rightSeed_bounce getDelayFromDistance_def glm_distance_x)
qed

subsection \<open>Helper facts: a trace in empty space\<close>

lemma emptyEnv_sel [simp]:
  "AudioSpatialProcessingHeadOriented emptyEnv = False"
  "getPosition emptyEnv = Vec3 0 0 0"
  "getOrientation emptyEnv = Quat 1 0 0 0"
  "findRayIntersection emptyEnv = (\<lambda>start direction. None)"
  "isSimilarPosition emptyEnv = (\<lambda>a b. glm_distance a b \<le> 1 / 100)"
  "isSimilarOrientation emptyEnv =
     (\<lambda>a b. 9999 / 10000 \<le> \<bar>qw a * qw b + qx a * qx b + qy a * qy b + qz a * qz b\<bar>)"
  by (simp_all add: emptyEnv_def corridorEnv_def)










subsection \<open>The staleness gate\<close>




subsection \<open>Helper facts: the chain engine\<close>

lemma calculateReflections_body_hit:
  assumes "findRayIntersection env (cr_start st) (cr_direction st) = Some (d, face)"
  shows "calculateReflections_body env this earPosition st =
    (let endPoint = vadd (cr_start st) (vscale (cr_direction st) (d * SLIGHTLY_SHORT));
         total = glm_distance endPoint earPosition + d;
         del = getDelayFromDistance env this total;
         att = getDistanceAttenuationCoefficient this total
                 * getBounceAttenuationCoefficient this (cr_bounceCount st);
         st3 = st\<lparr> cr_totalDistance := cr_totalDistance st + glm_distance (cr_start st) endPoint,
                    cr_totalDelay := del, cr_currentAttenuation := att \<rparr>
     in if att > MINIMUM_ATTENUATION_TO_REFLECT \<and> del < MAXIMUM_DELAY_MS
        then st3\<lparr> cr_reflectionPoints := cr_reflectionPoints st @ [endPoint],
                  cr_direction := glm_normalize (glm_reflect (cr_direction st)
                                    (fst (getFaceNormal env face (cr_randCalls st)))),
                  cr_start := endPoint,
                  cr_bounceCount := cr_bounceCount st + 1,
                  cr_randCalls := snd (getFaceNormal env face (cr_randCalls st)) \<rparr>
        else st3)"
  using assms by (simp add: calculateReflections_body_def Let_def case_prod_beta)

lemma calculateReflections_body_totals:
  assumes "findRayIntersection env (cr_start st) (cr_direction st) = Some (d, face)"
  shows "cr_totalDistance (calculateReflections_body env this earPosition st)
           = cr_totalDistance st + glm_distance (cr_start st)
               (vadd (cr_start st) (vscale (cr_direction st) (d * SLIGHTLY_SHORT)))"
    "cr_totalDelay (calculateReflections_body env this earPosition st)
           = getDelayFromDistance env this
               (glm_distance (vadd (cr_start st) (vscale (cr_direction st) (d * SLIGHTLY_SHORT))) earPosition + d)"
  by (simp_all add: calculateReflections_body_hit [OF assms] Let_def)

lemma chainEnv_sel [simp]:
  "AudioSpatialProcessingPreDelay chainEnv = False"
  "AudioSpatialProcessingWithDiffusions chainEnv = False"
  "AudioSpatialProcessingSlightlyRandomSurfaces chainEnv = False"
  "findRayIntersection chainEnv = corridor"
  "AudioSpatialProcessingPreDelay wallEnv = False"
  "AudioSpatialProcessingWithDiffusions wallEnv = False"
  "findRayIntersection wallEnv = wall"
  by (simp_all add: chainEnv_def wallEnv_def)

lemma chainStart_sel [simp]:
  "cr_reflectionPoints chainStart = []" "cr_start chainStart = Vec3 0 0 0"
  "cr_direction chainStart = Vec3 1 0 0" "cr_currentAttenuation chainStart = 1"
  "cr_totalDistance chainStart = 0" "cr_totalDelay chainStart = 0"
  "cr_bounceCount chainStart = 1" "cr_randCalls chainStart = 0"
  by (simp_all add: chainStart_def)

lemma bounce_mirror [simp]: "getBounceAttenuationCoefficient mirrorReflector n = 1"
  by (simp add: getBounceAttenuationCoefficient_def getSurfaceCharacteristics_def Let_def)

lemma chainFirst_eq:
  "chainFirst = \<lparr> cr_reflectionPoints = [Vec3 (999 / 32000) 0 0], cr_start = Vec3 (999 / 32000) 0 0,
       cr_direction = Vec3 (- 1) 0 0, cr_currentAttenuation = 1, cr_totalDistance = 999 / 32000,
       cr_totalDelay = 5997 / 32000, cr_bounceCount = 2, cr_randCalls = 2 \<rparr>"
proof -
  have hit: "findRayIntersection chainEnv (cr_start chainStart) (cr_direction chainStart) = Some (1 / 32, MIN_X_FACE)"
    by (simp add: corridor_def)
  have n: "getFaceNormal chainEnv MIN_X_FACE 0 = (Vec3 (- 1) 0 0, 2)"
    by (simp add: getFaceNormal_def Let_def)
  show ?thesis
    unfolding chainFirst_def calculateReflections_body_hit [OF hit]
    by (simp add: Let_def vadd_def vscale_def SLIGHTLY_SHORT_def glm_distance_x
          getDelayFromDistance_def distanceAttenuation_near n reflect_x
          MINIMUM_ATTENUATION_TO_REFLECT_def MAXIMUM_DELAY_MS_def chainStart_def)
qed

lemma chainSecond_totals:
  "cr_totalDistance chainSecond = 2996001 / 32000000"
  "cr_totalDelay chainSecond = 8991003 / 32000000"
proof -
  have hit: "findRayIntersection chainEnv (cr_start chainFirst) (cr_direction chainFirst)
      = Some (1999 / 32000, MAX_X_FACE)"
    by (simp add: chainFirst_eq corridor_def)
  show "cr_totalDistance chainSecond = 2996001 / 32000000"
    unfolding chainSecond_def calculateReflections_body_totals [OF hit]
    by (simp add: chainFirst_eq vadd_def vscale_def SLIGHTLY_SHORT_def glm_distance_x)
  show "cr_totalDelay chainSecond = 8991003 / 32000000"
    unfolding chainSecond_def calculateReflections_body_totals [OF hit]
    by (simp add: chainFirst_eq vadd_def vscale_def SLIGHTLY_SHORT_def glm_distance_x
          getDelayFromDistance_def)
qed

lemma wallFirst_totals:
  "cr_totalDistance wallFirst = 999 / 100"
  "cr_totalDelay wallFirst = 5997 / 100"
proof -
  have hit: "findRayIntersection wallEnv (cr_start chainStart) (cr_direction chainStart) = Some (10, MIN_X_FACE)"
    by (simp add: wall_def)
  show "cr_totalDistance wallFirst = 999 / 100"
    unfolding wallFirst_def calculateReflections_body_totals [OF hit]
    by (simp add: vadd_def vscale_def SLIGHTLY_SHORT_def glm_distance_x)
  show "cr_totalDelay wallFirst = 5997 / 100"
    unfolding wallFirst_def calculateReflections_body_totals [OF hit]
    by (simp add: vadd_def vscale_def SLIGHTLY_SHORT_def glm_distance_x getDelayFromDistance_def)
qed

subsection \<open>The total distance of the chain engine\<close>

text \<open>
  C1. The claim is that at every bounce of a chain the delay and the attenuation are
  computed from \<open>earDistance + pathDistance\<close>, the path distance being the sum of the
  segments since the seed. \<^verbatim>\<open>calculateReflections\<close> accumulates that sum in its
  function-level \<^verbatim>\<open>totalDistance\<close> and then declares a second \<^verbatim>\<open>totalDistance\<close> inside the
  loop, \<open>earDistance + distance\<close> with the distance of the last ray only, and computes
  both quantities from this one. After the second bounce of the seed to the right in
  the corridor the accumulated distance is \<open>2996001/32000000\<close> and the ear is at
  \<open>998001/32000000\<close>; the delay is that of \<open>2997001/32000000\<close>, not of their sum. In front
  of the wall at 10 m the first bounce has the delay of 19.99 m, not of 19.98 m.
\<close>

theorem chain_total_distance_is_last_ray:
  "calculateReflections_cond chainStart \<and> calculateReflections_cond chainFirst
   \<and> calculateReflections_loop chainEnv mirrorReflector (Vec3 0 0 0) chainStart
       = calculateReflections_loop chainEnv mirrorReflector (Vec3 0 0 0) chainSecond
   \<and> cr_totalDistance chainSecond = 2996001 / 32000000
   \<and> glm_distance (Vec3 (- (998001 / 32000000)) 0 0) (Vec3 0 0 0) = 998001 / 32000000
   \<and> cr_totalDelay chainSecond = 8991003 / 32000000
   \<and> getDelayFromDistance chainEnv mirrorReflector (998001 / 32000000 + cr_totalDistance chainSecond)
       = 11982006 / 32000000
   \<and> cr_totalDistance wallFirst = 999 / 100
   \<and> cr_totalDelay wallFirst = 5997 / 100
   \<and> getDelayFromDistance wallEnv mirrorReflector
        (glm_distance (Vec3 (999 / 100) 0 0) (Vec3 0 0 0) + cr_totalDistance wallFirst) = 5994 / 100"
proof -
  have c0: "calculateReflections_cond chainStart"
    by (simp add: calculateReflections_cond_def MINIMUM_ATTENUATION_TO_REFLECT_def
          MAXIMUM_DELAY_MS_def ABSOLUTE_MAXIMUM_BOUNCE_COUNT_def)
  have c1: "calculateReflections_cond chainFirst"
    by (simp add: chainFirst_eq calculateReflections_cond_def MINIMUM_ATTENUATION_TO_REFLECT_def
          MAXIMUM_DELAY_MS_def ABSOLUTE_MAXIMUM_BOUNCE_COUNT_def)
  have "calculateReflections_loop chainEnv mirrorReflector (Vec3 0 0 0) chainStart
       = calculateReflections_loop chainEnv mirrorReflector (Vec3 0 0 0) chainFirst"
    by (subst calculateReflections_loop.simps) (simp only: c0 chainFirst_def if_True)
  also have "\<dots> = calculateReflections_loop chainEnv mirrorReflector (Vec3 0 0 0) chainSecond"
    by (subst calculateReflections_loop.simps) (simp only: c1 chainSecond_def if_True)
  finally have l: "calculateReflections_loop chainEnv mirrorReflector (Vec3 0 0 0) chainStart
       = calculateReflections_loop chainEnv mirrorReflector (Vec3 0 0 0) chainSecond" .
  show ?thesis
    using c0 c1 l
    by (simp add: chainSecond_totals wallFirst_totals glm_distance_x getDelayFromDistance_def)
qed

subsection \<open>Helper facts: the paths of a trace\<close>












subsection \<open>Helper facts: a flood of diffusions\<close>









subsection \<open>The bounds of a trace\<close>




end
